theory Spec2Isabelle
  imports Main "HOL-Library.Sublist"
begin

section \<open>Python values and the operations weather.py applies to them\<close>

text \<open>
  \<^verbatim>\<open>response.json()\<close> gives a tree of dicts, lists, strings, numbers, booleans and
  \<^verbatim>\<open>None\<close>. A dict is kept as an association list in insertion order, which is the
  order Python iterates it in (a parsed JSON object has every key once). A string is its
  UTF-8 byte sequence. A float is carried as the text \<^verbatim>\<open>str()\<close> prints for it (Python's
  float repr determines the float), so that formatting one needs no floating point.
\<close>

datatype json =
    JNull
  | JBool bool
  | JInt int
  | JFloat string
  | JStr string
  | JList "json list"
  | JObj "(string \<times> json) list"

text \<open>
  The exceptions of the HTTP client, told apart the way the three \<^verbatim>\<open>except\<close> clauses of
  \<^verbatim>\<open>make_hko_weather_request\<close> do: \<^verbatim>\<open>HTTPStatusError\<close> with the status code of its
  response, \<^verbatim>\<open>RequestError\<close>, any other subclass of \<^verbatim>\<open>Exception\<close>, and a \<^verbatim>\<open>BaseException\<close>
  that is not an \<^verbatim>\<open>Exception\<close> (\<^verbatim>\<open>asyncio.CancelledError\<close>, \<^verbatim>\<open>KeyboardInterrupt\<close>), which
  \<^verbatim>\<open>except Exception\<close> does not catch. Each carries the text it prints as.
\<close>

datatype request_exn =
    HTTPStatusError nat string
  | RequestError string
  | OtherException string
  | BaseException string

text \<open>
  The exceptions that reach a caller; an uncaught one is the value \<open>Inl e\<close>. The first
  five are raised by the renderers. \<^verbatim>\<open>SystemError\<close> is a read of an address that holds no
  object. \<open>Propagated e\<close> is an exception of the HTTP client that no handler caught.
\<close>

datatype error =
    KeyError
  | IndexError
  | TypeError
  | AttributeError
  | UnboundLocalError
  | SystemError
  | Propagated request_exn

definition bindE :: "error + 'a \<Rightarrow> ('a \<Rightarrow> error + 'b) \<Rightarrow> error + 'b" where
  "bindE m f = (case m of Inl e \<Rightarrow> Inl e | Inr v \<Rightarrow> f v)"

definition nl :: string where
  "nl = [CHR 0x0A]"

text \<open>\<^verbatim>\<open>sep.join(items)\<close> on strings.\<close>

fun join :: "string \<Rightarrow> string list \<Rightarrow> string" where
  "join sep [] = []"
| "join sep [s] = s"
| "join sep (s # t # ss) = s @ sep @ join sep (t # ss)"

subsection \<open>\<^verbatim>\<open>str()\<close> and \<^verbatim>\<open>repr()\<close>\<close>

definition digit_char :: "nat \<Rightarrow> char" where
  "digit_char d = char_of (48 + d)"

fun str_nat :: "nat \<Rightarrow> string" where
  "str_nat n = (if n < 10 then [digit_char n] else str_nat (n div 10) @ [digit_char (n mod 10)])"

definition str_int :: "int \<Rightarrow> string" where
  "str_int i = (if i < 0 then CHR ''-'' # str_nat (nat (- i)) else str_nat (nat i))"

definition hex_char :: "nat \<Rightarrow> char" where
  "hex_char d = (if d < 10 then char_of (48 + d) else char_of (87 + d))"

text \<open>The last \<open>k\<close> hexadecimal digits of a number.\<close>

fun hex_digits :: "nat \<Rightarrow> nat \<Rightarrow> string" where
  "hex_digits 0 n = []"
| "hex_digits (Suc k) n = hex_digits k (n div 16) @ [hex_char (n mod 16)]"

text \<open>The code points of a string, each as its UTF-8 bytes.\<close>

fun py_chars :: "string \<Rightarrow> string list" where
  "py_chars [] = []"
| "py_chars (c # cs) =
     (let n = (if (of_char c :: nat) < 0x80 then 0
               else if (of_char c :: nat) < 0xE0 then 1
               else if (of_char c :: nat) < 0xF0 then 2 else (3::nat))
      in (c # take n cs) # py_chars (drop n cs))"

text \<open>The number of the code point that a UTF-8 sequence of one to four bytes encodes.\<close>

fun code_point :: "string \<Rightarrow> nat" where
  "code_point [a] = of_char a"
| "code_point [a, b] = (of_char a mod 32) * 64 + of_char b mod 64"
| "code_point [a, b, c] = (of_char a mod 16) * 4096 + (of_char b mod 64) * 64 + of_char c mod 64"
| "code_point [a, b, c, d] =
     (of_char a mod 8) * 262144 + (of_char b mod 64) * 4096 + (of_char c mod 64) * 64
     + of_char d mod 64"
| "code_point _ = 0"

text \<open>
  \<^verbatim>\<open>str.isprintable\<close> on one code point. In ASCII the printable ones are 0x20 to 0x7E. From
  U+0080 on the code points that are not printable are those of the categories Cc, Cf, Cs,
  Co, Cn, Zl, Zp and Zs; the table lists them as ranges (first, last), as the Unicode
  database 14.0 of CPython 3.11 has them (a later database assigns some of the code points
  that are unassigned here).
\<close>

definition nonprintable_ranges :: "(nat \<times> nat) list" where
  "nonprintable_ranges =
     [(0x80, 0xA0), (0xAD, 0xAD), (0x378, 0x379), (0x380, 0x383), (0x38B, 0x38B),
      (0x38D, 0x38D), (0x3A2, 0x3A2), (0x530, 0x530), (0x557, 0x558), (0x58B, 0x58C),
      (0x590, 0x590), (0x5C8, 0x5CF), (0x5EB, 0x5EE), (0x5F5, 0x605), (0x61C, 0x61C),
      (0x6DD, 0x6DD), (0x70E, 0x70F), (0x74B, 0x74C), (0x7B2, 0x7BF), (0x7FB, 0x7FC),
      (0x82E, 0x82F), (0x83F, 0x83F), (0x85C, 0x85D), (0x85F, 0x85F), (0x86B, 0x86F),
      (0x88F, 0x897), (0x8E2, 0x8E2), (0x984, 0x984), (0x98D, 0x98E), (0x991, 0x992),
      (0x9A9, 0x9A9), (0x9B1, 0x9B1), (0x9B3, 0x9B5), (0x9BA, 0x9BB), (0x9C5, 0x9C6),
      (0x9C9, 0x9CA), (0x9CF, 0x9D6), (0x9D8, 0x9DB), (0x9DE, 0x9DE), (0x9E4, 0x9E5),
      (0x9FF, 0xA00), (0xA04, 0xA04), (0xA0B, 0xA0E), (0xA11, 0xA12), (0xA29, 0xA29),
      (0xA31, 0xA31), (0xA34, 0xA34), (0xA37, 0xA37), (0xA3A, 0xA3B), (0xA3D, 0xA3D),
      (0xA43, 0xA46), (0xA49, 0xA4A), (0xA4E, 0xA50), (0xA52, 0xA58), (0xA5D, 0xA5D),
      (0xA5F, 0xA65), (0xA77, 0xA80), (0xA84, 0xA84), (0xA8E, 0xA8E), (0xA92, 0xA92),
      (0xAA9, 0xAA9), (0xAB1, 0xAB1), (0xAB4, 0xAB4), (0xABA, 0xABB), (0xAC6, 0xAC6),
      (0xACA, 0xACA), (0xACE, 0xACF), (0xAD1, 0xADF), (0xAE4, 0xAE5), (0xAF2, 0xAF8),
      (0xB00, 0xB00), (0xB04, 0xB04), (0xB0D, 0xB0E), (0xB11, 0xB12), (0xB29, 0xB29),
      (0xB31, 0xB31), (0xB34, 0xB34), (0xB3A, 0xB3B), (0xB45, 0xB46), (0xB49, 0xB4A),
      (0xB4E, 0xB54), (0xB58, 0xB5B), (0xB5E, 0xB5E), (0xB64, 0xB65), (0xB78, 0xB81),
      (0xB84, 0xB84), (0xB8B, 0xB8D), (0xB91, 0xB91), (0xB96, 0xB98), (0xB9B, 0xB9B),
      (0xB9D, 0xB9D), (0xBA0, 0xBA2), (0xBA5, 0xBA7), (0xBAB, 0xBAD), (0xBBA, 0xBBD),
      (0xBC3, 0xBC5), (0xBC9, 0xBC9), (0xBCE, 0xBCF), (0xBD1, 0xBD6), (0xBD8, 0xBE5),
      (0xBFB, 0xBFF), (0xC0D, 0xC0D), (0xC11, 0xC11), (0xC29, 0xC29), (0xC3A, 0xC3B),
      (0xC45, 0xC45), (0xC49, 0xC49), (0xC4E, 0xC54), (0xC57, 0xC57), (0xC5B, 0xC5C),
      (0xC5E, 0xC5F), (0xC64, 0xC65), (0xC70, 0xC76), (0xC8D, 0xC8D), (0xC91, 0xC91),
      (0xCA9, 0xCA9), (0xCB4, 0xCB4), (0xCBA, 0xCBB), (0xCC5, 0xCC5), (0xCC9, 0xCC9),
      (0xCCE, 0xCD4), (0xCD7, 0xCDC), (0xCDF, 0xCDF), (0xCE4, 0xCE5), (0xCF0, 0xCF0),
      (0xCF3, 0xCFF), (0xD0D, 0xD0D), (0xD11, 0xD11), (0xD45, 0xD45), (0xD49, 0xD49),
      (0xD50, 0xD53), (0xD64, 0xD65), (0xD80, 0xD80), (0xD84, 0xD84), (0xD97, 0xD99),
      (0xDB2, 0xDB2), (0xDBC, 0xDBC), (0xDBE, 0xDBF), (0xDC7, 0xDC9), (0xDCB, 0xDCE),
      (0xDD5, 0xDD5), (0xDD7, 0xDD7), (0xDE0, 0xDE5), (0xDF0, 0xDF1), (0xDF5, 0xE00),
      (0xE3B, 0xE3E), (0xE5C, 0xE80), (0xE83, 0xE83), (0xE85, 0xE85), (0xE8B, 0xE8B),
      (0xEA4, 0xEA4), (0xEA6, 0xEA6), (0xEBE, 0xEBF), (0xEC5, 0xEC5), (0xEC7, 0xEC7),
      (0xECE, 0xECF), (0xEDA, 0xEDB), (0xEE0, 0xEFF), (0xF48, 0xF48), (0xF6D, 0xF70),
      (0xF98, 0xF98), (0xFBD, 0xFBD), (0xFCD, 0xFCD), (0xFDB, 0xFFF), (0x10C6, 0x10C6),
      (0x10C8, 0x10CC), (0x10CE, 0x10CF), (0x1249, 0x1249), (0x124E, 0x124F), (0x1257, 0x1257),
      (0x1259, 0x1259), (0x125E, 0x125F), (0x1289, 0x1289), (0x128E, 0x128F), (0x12B1, 0x12B1),
      (0x12B6, 0x12B7), (0x12BF, 0x12BF), (0x12C1, 0x12C1), (0x12C6, 0x12C7), (0x12D7, 0x12D7),
      (0x1311, 0x1311), (0x1316, 0x1317), (0x135B, 0x135C), (0x137D, 0x137F), (0x139A, 0x139F),
      (0x13F6, 0x13F7), (0x13FE, 0x13FF), (0x1680, 0x1680), (0x169D, 0x169F), (0x16F9, 0x16FF),
      (0x1716, 0x171E), (0x1737, 0x173F), (0x1754, 0x175F), (0x176D, 0x176D), (0x1771, 0x1771),
      (0x1774, 0x177F), (0x17DE, 0x17DF), (0x17EA, 0x17EF), (0x17FA, 0x17FF), (0x180E, 0x180E),
      (0x181A, 0x181F), (0x1879, 0x187F), (0x18AB, 0x18AF), (0x18F6, 0x18FF), (0x191F, 0x191F),
      (0x192C, 0x192F), (0x193C, 0x193F), (0x1941, 0x1943), (0x196E, 0x196F), (0x1975, 0x197F),
      (0x19AC, 0x19AF), (0x19CA, 0x19CF), (0x19DB, 0x19DD), (0x1A1C, 0x1A1D), (0x1A5F, 0x1A5F),
      (0x1A7D, 0x1A7E), (0x1A8A, 0x1A8F), (0x1A9A, 0x1A9F), (0x1AAE, 0x1AAF), (0x1ACF, 0x1AFF),
      (0x1B4D, 0x1B4F), (0x1B7F, 0x1B7F), (0x1BF4, 0x1BFB), (0x1C38, 0x1C3A), (0x1C4A, 0x1C4C),
      (0x1C89, 0x1C8F), (0x1CBB, 0x1CBC), (0x1CC8, 0x1CCF), (0x1CFB, 0x1CFF), (0x1F16, 0x1F17),
      (0x1F1E, 0x1F1F), (0x1F46, 0x1F47), (0x1F4E, 0x1F4F), (0x1F58, 0x1F58), (0x1F5A, 0x1F5A),
      (0x1F5C, 0x1F5C), (0x1F5E, 0x1F5E), (0x1F7E, 0x1F7F), (0x1FB5, 0x1FB5), (0x1FC5, 0x1FC5),
      (0x1FD4, 0x1FD5), (0x1FDC, 0x1FDC), (0x1FF0, 0x1FF1), (0x1FF5, 0x1FF5), (0x1FFF, 0x200F),
      (0x2028, 0x202F), (0x205F, 0x206F), (0x2072, 0x2073), (0x208F, 0x208F), (0x209D, 0x209F),
      (0x20C1, 0x20CF), (0x20F1, 0x20FF), (0x218C, 0x218F), (0x2427, 0x243F), (0x244B, 0x245F),
      (0x2B74, 0x2B75), (0x2B96, 0x2B96), (0x2CF4, 0x2CF8), (0x2D26, 0x2D26), (0x2D28, 0x2D2C),
      (0x2D2E, 0x2D2F), (0x2D68, 0x2D6E), (0x2D71, 0x2D7E), (0x2D97, 0x2D9F), (0x2DA7, 0x2DA7),
      (0x2DAF, 0x2DAF), (0x2DB7, 0x2DB7), (0x2DBF, 0x2DBF), (0x2DC7, 0x2DC7), (0x2DCF, 0x2DCF),
      (0x2DD7, 0x2DD7), (0x2DDF, 0x2DDF), (0x2E5E, 0x2E7F), (0x2E9A, 0x2E9A), (0x2EF4, 0x2EFF),
      (0x2FD6, 0x2FEF), (0x2FFC, 0x3000), (0x3040, 0x3040), (0x3097, 0x3098), (0x3100, 0x3104),
      (0x3130, 0x3130), (0x318F, 0x318F), (0x31E4, 0x31EF), (0x321F, 0x321F), (0xA48D, 0xA48F),
      (0xA4C7, 0xA4CF), (0xA62C, 0xA63F), (0xA6F8, 0xA6FF), (0xA7CB, 0xA7CF), (0xA7D2, 0xA7D2),
      (0xA7D4, 0xA7D4), (0xA7DA, 0xA7F1), (0xA82D, 0xA82F), (0xA83A, 0xA83F), (0xA878, 0xA87F),
      (0xA8C6, 0xA8CD), (0xA8DA, 0xA8DF), (0xA954, 0xA95E), (0xA97D, 0xA97F), (0xA9CE, 0xA9CE),
      (0xA9DA, 0xA9DD), (0xA9FF, 0xA9FF), (0xAA37, 0xAA3F), (0xAA4E, 0xAA4F), (0xAA5A, 0xAA5B),
      (0xAAC3, 0xAADA), (0xAAF7, 0xAB00), (0xAB07, 0xAB08), (0xAB0F, 0xAB10), (0xAB17, 0xAB1F),
      (0xAB27, 0xAB27), (0xAB2F, 0xAB2F), (0xAB6C, 0xAB6F), (0xABEE, 0xABEF), (0xABFA, 0xABFF),
      (0xD7A4, 0xD7AF), (0xD7C7, 0xD7CA), (0xD7FC, 0xF8FF), (0xFA6E, 0xFA6F), (0xFADA, 0xFAFF),
      (0xFB07, 0xFB12), (0xFB18, 0xFB1C), (0xFB37, 0xFB37), (0xFB3D, 0xFB3D), (0xFB3F, 0xFB3F),
      (0xFB42, 0xFB42), (0xFB45, 0xFB45), (0xFBC3, 0xFBD2), (0xFD90, 0xFD91), (0xFDC8, 0xFDCE),
      (0xFDD0, 0xFDEF), (0xFE1A, 0xFE1F), (0xFE53, 0xFE53), (0xFE67, 0xFE67), (0xFE6C, 0xFE6F),
      (0xFE75, 0xFE75), (0xFEFD, 0xFF00), (0xFFBF, 0xFFC1), (0xFFC8, 0xFFC9), (0xFFD0, 0xFFD1),
      (0xFFD8, 0xFFD9), (0xFFDD, 0xFFDF), (0xFFE7, 0xFFE7), (0xFFEF, 0xFFFB), (0xFFFE, 0xFFFF),
      (0x1000C, 0x1000C), (0x10027, 0x10027), (0x1003B, 0x1003B), (0x1003E, 0x1003E),
      (0x1004E, 0x1004F), (0x1005E, 0x1007F), (0x100FB, 0x100FF), (0x10103, 0x10106),
      (0x10134, 0x10136), (0x1018F, 0x1018F), (0x1019D, 0x1019F), (0x101A1, 0x101CF),
      (0x101FE, 0x1027F), (0x1029D, 0x1029F), (0x102D1, 0x102DF), (0x102FC, 0x102FF),
      (0x10324, 0x1032C), (0x1034B, 0x1034F), (0x1037B, 0x1037F), (0x1039E, 0x1039E),
      (0x103C4, 0x103C7), (0x103D6, 0x103FF), (0x1049E, 0x1049F), (0x104AA, 0x104AF),
      (0x104D4, 0x104D7), (0x104FC, 0x104FF), (0x10528, 0x1052F), (0x10564, 0x1056E),
      (0x1057B, 0x1057B), (0x1058B, 0x1058B), (0x10593, 0x10593), (0x10596, 0x10596),
      (0x105A2, 0x105A2), (0x105B2, 0x105B2), (0x105BA, 0x105BA), (0x105BD, 0x105FF),
      (0x10737, 0x1073F), (0x10756, 0x1075F), (0x10768, 0x1077F), (0x10786, 0x10786),
      (0x107B1, 0x107B1), (0x107BB, 0x107FF), (0x10806, 0x10807), (0x10809, 0x10809),
      (0x10836, 0x10836), (0x10839, 0x1083B), (0x1083D, 0x1083E), (0x10856, 0x10856),
      (0x1089F, 0x108A6), (0x108B0, 0x108DF), (0x108F3, 0x108F3), (0x108F6, 0x108FA),
      (0x1091C, 0x1091E), (0x1093A, 0x1093E), (0x10940, 0x1097F), (0x109B8, 0x109BB),
      (0x109D0, 0x109D1), (0x10A04, 0x10A04), (0x10A07, 0x10A0B), (0x10A14, 0x10A14),
      (0x10A18, 0x10A18), (0x10A36, 0x10A37), (0x10A3B, 0x10A3E), (0x10A49, 0x10A4F),
      (0x10A59, 0x10A5F), (0x10AA0, 0x10ABF), (0x10AE7, 0x10AEA), (0x10AF7, 0x10AFF),
      (0x10B36, 0x10B38), (0x10B56, 0x10B57), (0x10B73, 0x10B77), (0x10B92, 0x10B98),
      (0x10B9D, 0x10BA8), (0x10BB0, 0x10BFF), (0x10C49, 0x10C7F), (0x10CB3, 0x10CBF),
      (0x10CF3, 0x10CF9), (0x10D28, 0x10D2F), (0x10D3A, 0x10E5F), (0x10E7F, 0x10E7F),
      (0x10EAA, 0x10EAA), (0x10EAE, 0x10EAF), (0x10EB2, 0x10EFF), (0x10F28, 0x10F2F),
      (0x10F5A, 0x10F6F), (0x10F8A, 0x10FAF), (0x10FCC, 0x10FDF), (0x10FF7, 0x10FFF),
      (0x1104E, 0x11051), (0x11076, 0x1107E), (0x110BD, 0x110BD), (0x110C3, 0x110CF),
      (0x110E9, 0x110EF), (0x110FA, 0x110FF), (0x11135, 0x11135), (0x11148, 0x1114F),
      (0x11177, 0x1117F), (0x111E0, 0x111E0), (0x111F5, 0x111FF), (0x11212, 0x11212),
      (0x1123F, 0x1127F), (0x11287, 0x11287), (0x11289, 0x11289), (0x1128E, 0x1128E),
      (0x1129E, 0x1129E), (0x112AA, 0x112AF), (0x112EB, 0x112EF), (0x112FA, 0x112FF),
      (0x11304, 0x11304), (0x1130D, 0x1130E), (0x11311, 0x11312), (0x11329, 0x11329),
      (0x11331, 0x11331), (0x11334, 0x11334), (0x1133A, 0x1133A), (0x11345, 0x11346),
      (0x11349, 0x1134A), (0x1134E, 0x1134F), (0x11351, 0x11356), (0x11358, 0x1135C),
      (0x11364, 0x11365), (0x1136D, 0x1136F), (0x11375, 0x113FF), (0x1145C, 0x1145C),
      (0x11462, 0x1147F), (0x114C8, 0x114CF), (0x114DA, 0x1157F), (0x115B6, 0x115B7),
      (0x115DE, 0x115FF), (0x11645, 0x1164F), (0x1165A, 0x1165F), (0x1166D, 0x1167F),
      (0x116BA, 0x116BF), (0x116CA, 0x116FF), (0x1171B, 0x1171C), (0x1172C, 0x1172F),
      (0x11747, 0x117FF), (0x1183C, 0x1189F), (0x118F3, 0x118FE), (0x11907, 0x11908),
      (0x1190A, 0x1190B), (0x11914, 0x11914), (0x11917, 0x11917), (0x11936, 0x11936),
      (0x11939, 0x1193A), (0x11947, 0x1194F), (0x1195A, 0x1199F), (0x119A8, 0x119A9),
      (0x119D8, 0x119D9), (0x119E5, 0x119FF), (0x11A48, 0x11A4F), (0x11AA3, 0x11AAF),
      (0x11AF9, 0x11BFF), (0x11C09, 0x11C09), (0x11C37, 0x11C37), (0x11C46, 0x11C4F),
      (0x11C6D, 0x11C6F), (0x11C90, 0x11C91), (0x11CA8, 0x11CA8), (0x11CB7, 0x11CFF),
      (0x11D07, 0x11D07), (0x11D0A, 0x11D0A), (0x11D37, 0x11D39), (0x11D3B, 0x11D3B),
      (0x11D3E, 0x11D3E), (0x11D48, 0x11D4F), (0x11D5A, 0x11D5F), (0x11D66, 0x11D66),
      (0x11D69, 0x11D69), (0x11D8F, 0x11D8F), (0x11D92, 0x11D92), (0x11D99, 0x11D9F),
      (0x11DAA, 0x11EDF), (0x11EF9, 0x11FAF), (0x11FB1, 0x11FBF), (0x11FF2, 0x11FFE),
      (0x1239A, 0x123FF), (0x1246F, 0x1246F), (0x12475, 0x1247F), (0x12544, 0x12F8F),
      (0x12FF3, 0x12FFF), (0x1342F, 0x143FF), (0x14647, 0x167FF), (0x16A39, 0x16A3F),
      (0x16A5F, 0x16A5F), (0x16A6A, 0x16A6D), (0x16ABF, 0x16ABF), (0x16ACA, 0x16ACF),
      (0x16AEE, 0x16AEF), (0x16AF6, 0x16AFF), (0x16B46, 0x16B4F), (0x16B5A, 0x16B5A),
      (0x16B62, 0x16B62), (0x16B78, 0x16B7C), (0x16B90, 0x16E3F), (0x16E9B, 0x16EFF),
      (0x16F4B, 0x16F4E), (0x16F88, 0x16F8E), (0x16FA0, 0x16FDF), (0x16FE5, 0x16FEF),
      (0x16FF2, 0x16FFF), (0x187F8, 0x187FF), (0x18CD6, 0x18CFF), (0x18D09, 0x1AFEF),
      (0x1AFF4, 0x1AFF4), (0x1AFFC, 0x1AFFC), (0x1AFFF, 0x1AFFF), (0x1B123, 0x1B14F),
      (0x1B153, 0x1B163), (0x1B168, 0x1B16F), (0x1B2FC, 0x1BBFF), (0x1BC6B, 0x1BC6F),
      (0x1BC7D, 0x1BC7F), (0x1BC89, 0x1BC8F), (0x1BC9A, 0x1BC9B), (0x1BCA0, 0x1CEFF),
      (0x1CF2E, 0x1CF2F), (0x1CF47, 0x1CF4F), (0x1CFC4, 0x1CFFF), (0x1D0F6, 0x1D0FF),
      (0x1D127, 0x1D128), (0x1D173, 0x1D17A), (0x1D1EB, 0x1D1FF), (0x1D246, 0x1D2DF),
      (0x1D2F4, 0x1D2FF), (0x1D357, 0x1D35F), (0x1D379, 0x1D3FF), (0x1D455, 0x1D455),
      (0x1D49D, 0x1D49D), (0x1D4A0, 0x1D4A1), (0x1D4A3, 0x1D4A4), (0x1D4A7, 0x1D4A8),
      (0x1D4AD, 0x1D4AD), (0x1D4BA, 0x1D4BA), (0x1D4BC, 0x1D4BC), (0x1D4C4, 0x1D4C4),
      (0x1D506, 0x1D506), (0x1D50B, 0x1D50C), (0x1D515, 0x1D515), (0x1D51D, 0x1D51D),
      (0x1D53A, 0x1D53A), (0x1D53F, 0x1D53F), (0x1D545, 0x1D545), (0x1D547, 0x1D549),
      (0x1D551, 0x1D551), (0x1D6A6, 0x1D6A7), (0x1D7CC, 0x1D7CD), (0x1DA8C, 0x1DA9A),
      (0x1DAA0, 0x1DAA0), (0x1DAB0, 0x1DEFF), (0x1DF1F, 0x1DFFF), (0x1E007, 0x1E007),
      (0x1E019, 0x1E01A), (0x1E022, 0x1E022), (0x1E025, 0x1E025), (0x1E02B, 0x1E0FF),
      (0x1E12D, 0x1E12F), (0x1E13E, 0x1E13F), (0x1E14A, 0x1E14D), (0x1E150, 0x1E28F),
      (0x1E2AF, 0x1E2BF), (0x1E2FA, 0x1E2FE), (0x1E300, 0x1E7DF), (0x1E7E7, 0x1E7E7),
      (0x1E7EC, 0x1E7EC), (0x1E7EF, 0x1E7EF), (0x1E7FF, 0x1E7FF), (0x1E8C5, 0x1E8C6),
      (0x1E8D7, 0x1E8FF), (0x1E94C, 0x1E94F), (0x1E95A, 0x1E95D), (0x1E960, 0x1EC70),
      (0x1ECB5, 0x1ED00), (0x1ED3E, 0x1EDFF), (0x1EE04, 0x1EE04), (0x1EE20, 0x1EE20),
      (0x1EE23, 0x1EE23), (0x1EE25, 0x1EE26), (0x1EE28, 0x1EE28), (0x1EE33, 0x1EE33),
      (0x1EE38, 0x1EE38), (0x1EE3A, 0x1EE3A), (0x1EE3C, 0x1EE41), (0x1EE43, 0x1EE46),
      (0x1EE48, 0x1EE48), (0x1EE4A, 0x1EE4A), (0x1EE4C, 0x1EE4C), (0x1EE50, 0x1EE50),
      (0x1EE53, 0x1EE53), (0x1EE55, 0x1EE56), (0x1EE58, 0x1EE58), (0x1EE5A, 0x1EE5A),
      (0x1EE5C, 0x1EE5C), (0x1EE5E, 0x1EE5E), (0x1EE60, 0x1EE60), (0x1EE63, 0x1EE63),
      (0x1EE65, 0x1EE66), (0x1EE6B, 0x1EE6B), (0x1EE73, 0x1EE73), (0x1EE78, 0x1EE78),
      (0x1EE7D, 0x1EE7D), (0x1EE7F, 0x1EE7F), (0x1EE8A, 0x1EE8A), (0x1EE9C, 0x1EEA0),
      (0x1EEA4, 0x1EEA4), (0x1EEAA, 0x1EEAA), (0x1EEBC, 0x1EEEF), (0x1EEF2, 0x1EFFF),
      (0x1F02C, 0x1F02F), (0x1F094, 0x1F09F), (0x1F0AF, 0x1F0B0), (0x1F0C0, 0x1F0C0),
      (0x1F0D0, 0x1F0D0), (0x1F0F6, 0x1F0FF), (0x1F1AE, 0x1F1E5), (0x1F203, 0x1F20F),
      (0x1F23C, 0x1F23F), (0x1F249, 0x1F24F), (0x1F252, 0x1F25F), (0x1F266, 0x1F2FF),
      (0x1F6D8, 0x1F6DC), (0x1F6ED, 0x1F6EF), (0x1F6FD, 0x1F6FF), (0x1F774, 0x1F77F),
      (0x1F7D9, 0x1F7DF), (0x1F7EC, 0x1F7EF), (0x1F7F1, 0x1F7FF), (0x1F80C, 0x1F80F),
      (0x1F848, 0x1F84F), (0x1F85A, 0x1F85F), (0x1F888, 0x1F88F), (0x1F8AE, 0x1F8AF),
      (0x1F8B2, 0x1F8FF), (0x1FA54, 0x1FA5F), (0x1FA6E, 0x1FA6F), (0x1FA75, 0x1FA77),
      (0x1FA7D, 0x1FA7F), (0x1FA87, 0x1FA8F), (0x1FAAD, 0x1FAAF), (0x1FABB, 0x1FABF),
      (0x1FAC6, 0x1FACF), (0x1FADA, 0x1FADF), (0x1FAE8, 0x1FAEF), (0x1FAF7, 0x1FAFF),
      (0x1FB93, 0x1FB93), (0x1FBCB, 0x1FBEF), (0x1FBFA, 0x1FFFF), (0x2A6E0, 0x2A6FF),
      (0x2B739, 0x2B73F), (0x2B81E, 0x2B81F), (0x2CEA2, 0x2CEAF), (0x2EBE1, 0x2F7FF),
      (0x2FA1E, 0x2FFFF), (0x3134B, 0xE00FF), (0xE01F0, 0x10FFFF)]"

definition isprintable :: "nat \<Rightarrow> bool" where
  "isprintable cp =
     (if cp < 128 then 32 \<le> cp \<and> cp \<noteq> 127
      else \<not> list_ex (\<lambda>(first, last). first \<le> cp \<and> cp \<le> last) nonprintable_ranges)"

text \<open>
  \<^verbatim>\<open>repr\<close> of a string: single quotes, unless the text has a single quote and no double
  quote. The quote and the backslash get a backslash in front; tab, newline and carriage
  return are written as a backslash and \<^verbatim>\<open>t\<close>, \<^verbatim>\<open>n\<close> or \<^verbatim>\<open>r\<close>; any other code point that
  is not printable is written as a backslash, \<^verbatim>\<open>x\<close>, \<^verbatim>\<open>u\<close> or \<^verbatim>\<open>U\<close> and two, four or
  eight hexadecimal digits, by its size; a printable one stands for itself.
\<close>

definition repr_char :: "char \<Rightarrow> string \<Rightarrow> string" where
  "repr_char q c =
     (let cp = code_point c in
      if c = [q] \<or> c = [CHR 0x5C] then CHR 0x5C # c
      else if cp = 9 then [CHR 0x5C, CHR ''t'']
      else if cp = 10 then [CHR 0x5C, CHR ''n'']
      else if cp = 13 then [CHR 0x5C, CHR ''r'']
      else if isprintable cp then c
      else if cp < 0x100 then [CHR 0x5C, CHR ''x''] @ hex_digits 2 cp
      else if cp < 0x10000 then [CHR 0x5C, CHR ''u''] @ hex_digits 4 cp
      else [CHR 0x5C, CHR ''U''] @ hex_digits 8 cp)"

definition repr_str :: "string \<Rightarrow> string" where
  "repr_str s =
     (let q = (if CHR 0x27 \<in> set s \<and> CHR 0x22 \<notin> set s then CHR 0x22 else CHR 0x27)
      in [q] @ concat (map (repr_char q) (py_chars s)) @ [q])"

fun py_repr :: "json \<Rightarrow> string" where
  "py_repr JNull = ''None''"
| "py_repr (JBool b) = (if b then ''True'' else ''False'')"
| "py_repr (JInt i) = str_int i"
| "py_repr (JFloat t) = t"
| "py_repr (JStr s) = repr_str s"
| "py_repr (JList xs) = ''['' @ join '', '' (map py_repr xs) @ '']''"
| "py_repr (JObj kvs) =
     ''{'' @ join '', '' (map (\<lambda>(k, v). repr_str k @ '': '' @ py_repr v) kvs) @ ''}''"

text \<open>What an f-string field \<^verbatim>\<open>{x}\<close> expands to: \<^verbatim>\<open>str(x)\<close>.\<close>

fun py_str :: "json \<Rightarrow> string" where
  "py_str (JStr s) = s"
| "py_str v = py_repr v"

subsection \<open>Truth value, lookup, iteration\<close>

fun truthy :: "json \<Rightarrow> bool" where
  "truthy JNull = False"
| "truthy (JBool b) = b"
| "truthy (JInt i) = (i \<noteq> 0)"
| "truthy (JFloat t) = (t \<noteq> ''0.0'' \<and> t \<noteq> ''-0.0'')"
| "truthy (JStr s) = (s \<noteq> [])"
| "truthy (JList xs) = (xs \<noteq> [])"
| "truthy (JObj kvs) = (kvs \<noteq> [])"

text \<open>\<^verbatim>\<open>x.get(k, default)\<close>: only a dict has the method.\<close>

fun py_get :: "json \<Rightarrow> string \<Rightarrow> json \<Rightarrow> error + json" where
  "py_get (JObj kvs) k d = Inr (case map_of kvs k of Some v \<Rightarrow> v | None \<Rightarrow> d)"
| "py_get _ k d = Inl AttributeError"

text \<open>\<^verbatim>\<open>x['k']\<close> with a string key: a dict looks it up, every other value refuses the index.\<close>

fun py_getitem :: "json \<Rightarrow> string \<Rightarrow> error + json" where
  "py_getitem (JObj kvs) k = (case map_of kvs k of Some v \<Rightarrow> Inr v | None \<Rightarrow> Inl KeyError)"
| "py_getitem _ k = Inl TypeError"

text \<open>\<^verbatim>\<open>x[0]\<close>. The keys of a parsed JSON object are strings, so a dict has no key 0.\<close>

fun py_getitem0 :: "json \<Rightarrow> error + json" where
  "py_getitem0 (JList xs) = (case xs of [] \<Rightarrow> Inl IndexError | x # _ \<Rightarrow> Inr x)"
| "py_getitem0 (JStr s) = (case py_chars s of [] \<Rightarrow> Inl IndexError | c # _ \<Rightarrow> Inr (JStr c))"
| "py_getitem0 (JObj kvs) = Inl KeyError"
| "py_getitem0 _ = Inl TypeError"

text \<open>The items a \<^verbatim>\<open>for\<close> loop or \<^verbatim>\<open>join\<close> draws from a value.\<close>

fun py_iter :: "json \<Rightarrow> error + json list" where
  "py_iter (JList xs) = Inr xs"
| "py_iter (JStr s) = Inr (map JStr (py_chars s))"
| "py_iter (JObj kvs) = Inr (map (\<lambda>(k, v). JStr k) kvs)"
| "py_iter _ = Inl TypeError"

fun py_len :: "json \<Rightarrow> error + nat" where
  "py_len (JList xs) = Inr (length xs)"
| "py_len (JStr s) = Inr (length (py_chars s))"
| "py_len (JObj kvs) = Inr (length kvs)"
| "py_len _ = Inl TypeError"

text \<open>\<^verbatim>\<open>'k' in x\<close> for a string \<open>k\<close>.\<close>

fun py_contains :: "string \<Rightarrow> json \<Rightarrow> error + bool" where
  "py_contains k (JObj kvs) = Inr (k \<in> set (map fst kvs))"
| "py_contains k (JList xs) = Inr (JStr k \<in> set xs)"
| "py_contains k (JStr s) = Inr (sublist k s)"
| "py_contains k _ = Inl TypeError"

text \<open>\<^verbatim>\<open>sep.join(x)\<close>: every item drawn from \<open>x\<close> must be a string.\<close>

fun str_items :: "json list \<Rightarrow> error + string list" where
  "str_items [] = Inr []"
| "str_items (JStr s # xs) = bindE (str_items xs) (\<lambda>ss. Inr (s # ss))"
| "str_items (_ # xs) = Inl TypeError"

definition py_join :: "string \<Rightarrow> json \<Rightarrow> error + string" where
  "py_join sep x = bindE (py_iter x) (\<lambda>xs. bindE (str_items xs) (\<lambda>ss. Inr (join sep ss)))"

declare str_nat.simps [simp del]

text \<open>\<^verbatim>\<open>x.items()\<close>: only a dict has the method.\<close>

fun py_items :: "json \<Rightarrow> error + (string \<times> json) list" where
  "py_items (JObj kvs) = Inr kvs"
| "py_items _ = Inl AttributeError"

text \<open>A comprehension \<^verbatim>\<open>f(x) for x in xs\<close>: the first item that raises ends it.\<close>

fun mapE :: "('a \<Rightarrow> error + 'b) \<Rightarrow> 'a list \<Rightarrow> error + 'b list" where
  "mapE f [] = Inr []"
| "mapE f (x # xs) = bindE (f x) (\<lambda>y. bindE (mapE f xs) (\<lambda>ys. Inr (y # ys)))"

section \<open>The store\<close>

text \<open>
  Python passes the document by reference and the renderers append to lists they create.
  The store is the list of the objects allocated so far, an address is an index into it,
  and a new object goes to the end. The document is one cell; the parts of it that the
  code reads are values taken from that cell. A function of the source that takes
  \<^verbatim>\<open>data\<close> takes its address and the store, and returns what it returns or raises
  together with the store it leaves.
\<close>

type_synonym addr = nat
type_synonym heap = "json list"

definition alloc :: "json \<Rightarrow> heap \<Rightarrow> addr \<times> heap" where
  "alloc v h = (length h, h @ [v])"

definition heap_read :: "addr \<Rightarrow> heap \<Rightarrow> error + json" where
  "heap_read a h = (if a < length h then Inr (h ! a) else Inl SystemError)"

text \<open>\<^verbatim>\<open>xs.append(v)\<close> on the list at address \<open>a\<close>.\<close>

definition list_append :: "addr \<Rightarrow> json \<Rightarrow> heap \<Rightarrow> (error + unit) \<times> heap" where
  "list_append a v h =
     (if a < length h
      then (case h ! a of
              JList xs \<Rightarrow> (Inr (), h[a := JList (xs @ [v])])
            | _ \<Rightarrow> (Inl AttributeError, h))
      else (Inl SystemError, h))"

definition bindH ::
  "(error + 'a) \<times> heap \<Rightarrow> ('a \<Rightarrow> heap \<Rightarrow> (error + 'b) \<times> heap) \<Rightarrow> (error + 'b) \<times> heap" where
  "bindH m f = (case m of (Inl e, h) \<Rightarrow> (Inl e, h) | (Inr v, h) \<Rightarrow> f v h)"

text \<open>An expression that reads the object at \<open>a\<close> and writes nothing.\<close>

definition rd :: "(json \<Rightarrow> error + 'a) \<Rightarrow> addr \<Rightarrow> heap \<Rightarrow> (error + 'a) \<times> heap" where
  "rd f a h = (bindE (heap_read a h) f, h)"

text \<open>
  The loop \<^verbatim>\<open>for x in xs: acc.append(f"...")\<close>, with \<open>body\<close> the f-string of the loop
  body and \<open>acc\<close> the address of the list.
\<close>

fun append_each :: "('a \<Rightarrow> error + string) \<Rightarrow> 'a list \<Rightarrow> addr \<Rightarrow> heap \<Rightarrow> (error + unit) \<times> heap" where
  "append_each body [] acc h = (Inr (), h)"
| "append_each body (x # xs) acc h =
     bindH (body x, h) (\<lambda>s h.
     bindH (list_append acc (JStr s) h) (\<lambda>_ h.
     append_each body xs acc h))"

section \<open>The renderers of weather.py\<close>

subsection \<open>format_warnings\<close>

definition warning_code_dict :: "(string \<times> string) list" where
  "warning_code_dict =
     [(''WFIRE'', ''Fire Danger Warning''),
      (''WFROST'', ''Frost Warning''),
      (''WHOT'', ''Hot Weather Warning''),
      (''WCOLD'', ''Cold Weather Warning''),
      (''WMSGNL'', ''Strong Monsoon Signal''),
      (''WTCPRE8'', ''Pre-no.8 Special Announcement''),
      (''WRAIN'', ''Rainstorm Warning Signal''),
      (''WFNTSA'', ''Special Announcement on Flooding in the northern New Territories''),
      (''WL'', ''Landslip Warning''),
      (''WTCSGNL'', ''Tropical Cyclone Warning Signal''),
      (''WTMW'', ''Tsunami Warning''),
      (''WTS'', ''Thunderstorm Warning'')]"

text \<open>
  \<^verbatim>\<open>warning_code_dict[v]\<close>: a list or a dict cannot be hashed; any other value that is not
  one of the twelve keys is a missing key.
\<close>

fun warning_code_lookup :: "json \<Rightarrow> error + string" where
  "warning_code_lookup (JStr c) =
     (case map_of warning_code_dict c of Some n \<Rightarrow> Inr n | None \<Rightarrow> Inl KeyError)"
| "warning_code_lookup (JList xs) = Inl TypeError"
| "warning_code_lookup (JObj kvs) = Inl TypeError"
| "warning_code_lookup _ = Inl KeyError"

definition format_warnings_body :: "json \<Rightarrow> error + string" where
  "format_warnings_body warning =
     bindE (py_getitem warning ''warningStatementCode'') (\<lambda>c.
     bindE (warning_code_lookup c) (\<lambda>code.
     bindE (py_get warning ''subtype'' JNull) (\<lambda>st.
     bindE (if truthy st
            then bindE (py_getitem warning ''subtype'') (\<lambda>s. Inr ('' ('' @ py_str s @ '')''))
            else Inr []) (\<lambda>subtype.
     bindE (py_getitem warning ''updateTime'') (\<lambda>time.
     bindE (py_getitem warning ''contents'') (\<lambda>cs.
     bindE (py_join '' '' cs) (\<lambda>content.
     Inr (code @ subtype @ '' - '' @ py_str time @ '': '' @ content))))))))"

definition format_warnings :: "addr \<Rightarrow> heap \<Rightarrow> (error + string) \<times> heap" where
  "format_warnings data h =
     bindH (rd (\<lambda>d. py_get d ''details'' JNull) data h) (\<lambda>det h.
     if \<not> truthy det then (Inr ''No active warnings'', h)
     else
       (case alloc (JList []) h of (warnings, h) \<Rightarrow>
        bindH (rd (\<lambda>d. bindE (py_getitem d ''details'') py_iter) data h) (\<lambda>details h.
        bindH (append_each format_warnings_body details warnings h) (\<lambda>_ h.
        rd (py_join (nl @ nl)) warnings h))))"

subsection \<open>format_warnings_summary\<close>

definition format_warnings_summary_body :: "string \<times> json \<Rightarrow> error + string" where
  "format_warnings_summary_body item =
     (case item of (warning_code, warning_info) \<Rightarrow>
        bindE (py_get warning_info ''name'' (JStr ''Unknown'')) (\<lambda>warning_name.
        bindE (py_get warning_info ''actionCode'' (JStr ''Unknown'')) (\<lambda>action.
        bindE (py_get warning_info ''issueTime'' (JStr ''Unknown'')) (\<lambda>issue_time.
        Inr (py_str warning_name @ '' ('' @ warning_code @ '') - Action: '' @ py_str action
             @ '', Issued at: '' @ py_str issue_time)))))"

definition format_warnings_summary :: "addr \<Rightarrow> heap \<Rightarrow> (error + string) \<times> heap" where
  "format_warnings_summary warnings_data h =
     (case alloc (JList []) h of (final_warning_list, h) \<Rightarrow>
      bindH (rd py_items warnings_data h) (\<lambda>items h.
      if length items = 0 then (Inr ''No warning issued.'', h)
      else
        bindH (rd py_items warnings_data h) (\<lambda>items h.
        bindH (append_each format_warnings_summary_body items final_warning_list h) (\<lambda>_ h.
        rd (py_join nl) final_warning_list h))))"

subsection \<open>The four extractions of the current weather report\<close>

text \<open>The degree sign U+00B0, in UTF-8.\<close>

definition degree_sign :: string where
  "degree_sign = [CHR 0xC2, CHR 0xB0]"

definition extract_temperature_body :: "json \<Rightarrow> error + string" where
  "extract_temperature_body temp =
     bindE (py_getitem temp ''place'') (\<lambda>place.
     bindE (py_getitem temp ''value'') (\<lambda>val.
     bindE (py_getitem temp ''unit'') (\<lambda>unit.
     Inr (py_str place @ '': '' @ py_str val @ degree_sign @ py_str unit))))"

text \<open>
  Without the key \<^verbatim>\<open>temperature\<close> the \<^verbatim>\<open>return temp\<close> reads a local variable that was
  never assigned.
\<close>

definition extract_temperature_data :: "addr \<Rightarrow> heap \<Rightarrow> (error + string) \<times> heap" where
  "extract_temperature_data data h =
     bindH (rd (py_contains ''temperature'') data h) (\<lambda>present h.
     if present then
       bindH (rd (\<lambda>d. bindE (py_getitem d ''temperature'') (\<lambda>t. py_getitem t ''data'')) data h)
         (\<lambda>temperatures h.
       bindH (rd (\<lambda>d. bindE (py_getitem d ''temperature'') (\<lambda>t. py_getitem t ''recordTime'')) data h)
         (\<lambda>record_time h.
       (case alloc (JList []) h of (location_temp, h) \<Rightarrow>
        bindH (py_iter temperatures, h) (\<lambda>temps h.
        bindH (append_each extract_temperature_body temps location_temp h) (\<lambda>_ h.
        bindH (rd (py_join nl) location_temp h) (\<lambda>joined h.
        (Inr (''Temperature readings (recorded at '' @ py_str record_time @ ''):'' @ joined), h)))))))
     else (Inl UnboundLocalError, h))"

definition extract_rainfall_body :: "json \<Rightarrow> error + string" where
  "extract_rainfall_body rain =
     bindE (py_get rain ''main'' JNull) (\<lambda>main.
     (let maintenance = (if main = JStr ''TRUE'' then '' Under maintenance'' else ''False'') in
     bindE (py_getitem rain ''place'') (\<lambda>place.
     bindE (py_getitem rain ''max'') (\<lambda>mx.
     bindE (py_getitem rain ''unit'') (\<lambda>unit.
     Inr (py_str place @ '': '' @ py_str mx @ py_str unit @ '' maintenance:'' @ maintenance))))))"

definition extract_rainfall_data :: "addr \<Rightarrow> heap \<Rightarrow> (error + string) \<times> heap" where
  "extract_rainfall_data data h =
     bindH (rd (py_contains ''rainfall'') data h) (\<lambda>present h.
     if present then
       bindH (rd (\<lambda>d. py_getitem d ''rainfall'') data h) (\<lambda>rainfall_info h.
       bindH (py_getitem rainfall_info ''data'', h) (\<lambda>rainfall_data h.
       (case alloc (JList []) h of (rain_location, h) \<Rightarrow>
        bindH (py_iter rainfall_data, h) (\<lambda>rains h.
        bindH (append_each extract_rainfall_body rains rain_location h) (\<lambda>_ h.
        bindH (rd (py_join []) rain_location h) (\<lambda>joined h.
        (Inr (''Rainfall data:'' @ nl @ '' '' @ joined), h)))))))
     else (Inl UnboundLocalError, h))"

definition extract_humidity_data :: "addr \<Rightarrow> heap \<Rightarrow> (error + string) \<times> heap" where
  "extract_humidity_data data h =
     bindH (rd (py_contains ''humidity'') data h) (\<lambda>present h.
     bindH (if \<not> present then (Inr True, h)
            else rd (\<lambda>d. bindE (py_get d ''humidity'' (JObj [])) (\<lambda>hum.
                          bindE (py_get hum ''data'' JNull) (\<lambda>readings.
                          Inr (\<not> truthy readings)))) data h) (\<lambda>unavailable h.
     if unavailable then (Inr ''Humidty data not available'', h)
     else
       bindH (rd (\<lambda>d. bindE (py_getitem d ''humidity'') (\<lambda>hum.
                       bindE (py_getitem hum ''data'') py_getitem0)) data h) (\<lambda>humidity_info h.
       bindH (rd (\<lambda>d. bindE (py_getitem d ''humidity'') (\<lambda>hum.
                       py_getitem hum ''recordTime'')) data h) (\<lambda>record_time h.
       (bindE (py_getitem humidity_info ''value'') (\<lambda>val.
        bindE (py_getitem humidity_info ''unit'') (\<lambda>unit.
        bindE (py_getitem humidity_info ''place'') (\<lambda>place.
        Inr (''Humidity: '' @ py_str val @ '' '' @ py_str unit @ '' at '' @ py_str place
             @ '' Recorded at: '' @ py_str record_time)))), h)))))"

text \<open>
  The f-string of \<^verbatim>\<open>extract_uv_index\<close> is triple-quoted: its first line ends with a
  space, and the second starts with the eight spaces of the source's indentation.
\<close>

definition extract_uv_index :: "addr \<Rightarrow> heap \<Rightarrow> (error + string) \<times> heap" where
  "extract_uv_index data h =
     bindH (rd (\<lambda>d. py_get d ''uvindex'' (JStr ''No uv index'')) data h) (\<lambda>uvinfo h.
     bindH (py_len uvinfo, h) (\<lambda>n h.
     if n < 1 then (Inr ''No UV index'', h)
     else
       (bindE (bindE (py_getitem uvinfo ''data'') py_getitem0) (\<lambda>uv_data.
        bindE (py_getitem uvinfo ''recordDesc'') (\<lambda>record_desc.
        bindE (py_getitem uv_data ''value'') (\<lambda>val.
        bindE (py_getitem uv_data ''desc'') (\<lambda>desc.
        bindE (py_getitem uv_data ''place'') (\<lambda>place.
        Inr (''UV Index: '' @ py_str val @ '' ('' @ py_str desc @ '') at '' @ py_str place
             @ '' '' @ nl @ ''        Record description: '' @ py_str record_desc)))))), h)))"

definition current_weather_process :: "addr \<Rightarrow> heap \<Rightarrow> (error + string) \<times> heap" where
  "current_weather_process data h =
     bindH (extract_temperature_data data h) (\<lambda>temperature h.
     bindH (extract_rainfall_data data h) (\<lambda>rainfall h.
     bindH (extract_humidity_data data h) (\<lambda>humidity h.
     bindH (extract_uv_index data h) (\<lambda>uv h.
     (Inr (join nl [temperature, rainfall, humidity, uv]), h)))))"

subsection \<open>formatting_weather\<close>

text \<open>
  In the f-string of the \<^verbatim>\<open>fnd\<close> branch a backslash ends the source line after the
  maximum temperature; the twelve spaces that indent the next line are inside the string
  literal, between the maximum and the unit.
\<close>

definition fnd_body :: "json \<Rightarrow> error + string" where
  "fnd_body day =
     bindE (py_getitem day ''week'') (\<lambda>week.
     bindE (py_getitem day ''forecastDate'') (\<lambda>date.
     bindE (py_getitem day ''forecastWeather'') (\<lambda>weather.
     bindE (bindE (py_getitem day ''forecastMintemp'') (\<lambda>t. py_getitem t ''value'')) (\<lambda>mintemp.
     bindE (bindE (py_getitem day ''forecastMaxtemp'') (\<lambda>t. py_getitem t ''value'')) (\<lambda>maxtemp.
     bindE (bindE (py_getitem day ''forecastMaxtemp'') (\<lambda>t. py_getitem t ''unit'')) (\<lambda>unit.
     Inr (py_str week @ '' ('' @ py_str date @ ''): '' @ py_str weather @ '', ''
          @ py_str mintemp @ ''-'' @ py_str maxtemp @ ''            '' @ py_str unit)))))))"

definition swt_body :: "json \<Rightarrow> error + string" where
  "swt_body tips =
     bindE (py_get tips ''updateTime'' (JStr ''time unknown'')) (\<lambda>time.
     bindE (py_get tips ''desc'' (JStr ''no description'')) (\<lambda>desc.
     Inr (py_str time @ '': '' @ py_str desc)))"

definition flw_text :: "json \<Rightarrow> error + string" where
  "flw_text d =
     bindE (py_get d ''generalSituation'' (JStr ''Unknown'')) (\<lambda>general.
     bindE (py_get d ''tcInfo'' (JStr ''Unkown'')) (\<lambda>tc.
     bindE (py_get d ''fireDangerWarning'' (JStr ''No fire Danger'')) (\<lambda>fire.
     bindE (py_get d ''forecastPeriod'' (JStr ''Forecast Period not provided'')) (\<lambda>period.
     bindE (py_get d ''forecastDesc'' (JStr ''No forecast description available'')) (\<lambda>desc.
     bindE (py_get d ''outlook'' (JStr ''No outlook available'')) (\<lambda>outlook.
     bindE (py_get d ''updateTime'' (JStr ''No update time available'')) (\<lambda>time.
     Inr (nl @ ''        General Situation: '' @ py_str general
          @ nl @ ''        tcInfo: '' @ py_str tc
          @ nl @ ''        fireDangerWarning: '' @ py_str fire
          @ nl @ ''        forecastPeriod: '' @ py_str period
          @ nl @ ''        forecastDesc: '' @ py_str desc
          @ nl @ ''        outlook: '' @ py_str outlook
          @ nl @ ''        updateTime: '' @ py_str time
          @ nl @ ''        ''))))))))"

text \<open>
  The result is \<open>Some\<close> text, or \<open>None\<close> where the Python function falls off its end and
  returns \<^verbatim>\<open>None\<close>: a tag that is none of the six.
\<close>

definition formatting_weather :: "addr \<Rightarrow> string \<Rightarrow> heap \<Rightarrow> (error + string option) \<times> heap" where
  "formatting_weather weather_data dataType h =
     (if dataType = ''flw'' then
        bindH (rd flw_text weather_data h) (\<lambda>s h. (Inr (Some s), h))
      else if dataType = ''fnd'' then
        bindH (rd (\<lambda>d. py_getitem d ''weatherForecast'') weather_data h) (\<lambda>weekly_weather_list h.
        bindH (bindE (py_iter weekly_weather_list) (mapE fnd_body), h) (\<lambda>lines h.
        (Inr (Some (join nl lines)), h)))
      else if dataType = ''rhrread'' then
        bindH (current_weather_process weather_data h) (\<lambda>s h. (Inr (Some s), h))
      else if dataType = ''warnsum'' then
        bindH (format_warnings_summary weather_data h) (\<lambda>s h. (Inr (Some s), h))
      else if dataType = ''warningInfo'' then
        bindH (format_warnings weather_data h) (\<lambda>s h. (Inr (Some s), h))
      else if dataType = ''swt'' then
        bindH (rd (\<lambda>d. py_getitem d ''swt'') weather_data h) (\<lambda>special_weather_tips_list h.
        bindH (bindE (py_iter special_weather_tips_list) (mapE swt_body), h) (\<lambda>lines h.
        (Inr (Some (join nl lines)), h)))
      else (Inr None, h))"

section \<open>The request and the tool\<close>

text \<open>
  The HTTP client is a library outside the repository. What it does is given by the world
  the program runs in. Creating the client and entering the \<^verbatim>\<open>async with\<close> block may
  raise (the constructor does on a proxy setting it does not support), and so may leaving
  the block, which closes the client; both happen outside the \<^verbatim>\<open>try\<close>. Inside it, the
  server answers with a status code and a body, or \<^verbatim>\<open>client.get\<close> raises.
  \<^verbatim>\<open>raise_for_status\<close> raises \<^verbatim>\<open>HTTPStatusError\<close> for every status outside 200..299, and
  \<^verbatim>\<open>response.json()\<close> raises when the body is not JSON.
\<close>

record response =
  status_code :: nat
  status_text :: string
  json_body :: "string + json"

datatype get_outcome = Responds response | Raises request_exn

record world =
  client_enter :: "request_exn option"
  client_exit :: "request_exn option"
  network :: "string \<Rightarrow> (string \<times> string) list \<Rightarrow> get_outcome"
  requests :: "(string \<times> (string \<times> string) list) list"
  console :: "string list"

definition HKO_API_BASE :: string where
  "HKO_API_BASE = ''https://data.weather.gov.hk/weatherAPI/opendata/weather.php''"

definition USER_AGENT :: string where
  "USER_AGENT = ''weather-app/1.0''"

definition print :: "string \<Rightarrow> world \<Rightarrow> world" where
  "print line w = w\<lparr>console := console w @ [line]\<rparr>"

definition client_get ::
  "string \<Rightarrow> (string \<times> string) list \<Rightarrow> world \<Rightarrow> (request_exn + response) \<times> world" where
  "client_get url headers w =
     (case network w url headers of
        Responds r \<Rightarrow> Inr r
      | Raises e \<Rightarrow> Inl e,
      w\<lparr>requests := requests w @ [(url, headers)]\<rparr>)"

definition raise_for_status :: "response \<Rightarrow> request_exn + unit" where
  "raise_for_status r =
     (if 200 \<le> status_code r \<and> status_code r < 300 then Inr ()
      else Inl (HTTPStatusError (status_code r) (status_text r)))"

definition response_json :: "response \<Rightarrow> request_exn + json" where
  "response_json r = (case json_body r of Inl text \<Rightarrow> Inl (OtherException text) | Inr d \<Rightarrow> Inr d)"

text \<open>
  The \<^verbatim>\<open>try\<close> block with its three handlers, in the source's order: each handler prints
  and returns \<^verbatim>\<open>None\<close>, the value \<open>JNull\<close>, and an exception that is not an \<^verbatim>\<open>Exception\<close>
  passes them.
\<close>

definition try_request :: "string \<Rightarrow> (string \<times> string) list \<Rightarrow> world \<Rightarrow> (error + json) \<times> world" where
  "try_request url headers w =
     (case client_get url headers w of (got, w) \<Rightarrow>
        (case (case got of
                 Inl e \<Rightarrow> Inl e
               | Inr response \<Rightarrow>
                   (case raise_for_status response of
                      Inl e \<Rightarrow> Inl e
                    | Inr _ \<Rightarrow> response_json response)) of
           Inr document \<Rightarrow> (Inr document, w)
         | Inl (HTTPStatusError code text) \<Rightarrow>
             (Inr JNull, print (''HTTP error: '' @ str_nat code @ '' - '' @ text) w)
         | Inl (RequestError text) \<Rightarrow> (Inr JNull, print (''Request error: '' @ text) w)
         | Inl (OtherException text) \<Rightarrow> (Inr JNull, print (''Unexpected error: '' @ text) w)
         | Inl (BaseException text) \<Rightarrow> (Inl (Propagated (BaseException text)), w)))"

text \<open>
  The function: the \<^verbatim>\<open>async with\<close> block around the \<^verbatim>\<open>try\<close>. An exception raised while
  the client is created or entered reaches the caller, and no request is made. One raised
  while the block is left reaches the caller in place of the result of the \<^verbatim>\<open>try\<close>.
\<close>

definition make_hko_weather_request :: "string \<Rightarrow> world \<Rightarrow> (error + json) \<times> world" where
  "make_hko_weather_request url w =
     (let headers = [(''User-Agent'', USER_AGENT), (''Accept'', ''application/json'')] in
      case client_enter w of
        Some e \<Rightarrow> (Inl (Propagated e), w)
      | None \<Rightarrow>
          (case try_request url headers w of (result, w) \<Rightarrow>
             (case client_exit w of
                Some e \<Rightarrow> (Inl (Propagated e), w)
              | None \<Rightarrow> (result, w))))"

definition dataType_set :: "string list" where
  "dataType_set = [''flw'', ''fnd'', ''rhrread'', ''warnsum'', ''warningInfo'', ''swt'']"

definition lang_set :: "string list" where
  "lang_set = [''en'', ''tc'', ''sc'']"

text \<open>\<^verbatim>\<open>str()\<close> of a set of strings whose elements come in the order \<open>xs\<close>.\<close>

definition set_repr :: "string list \<Rightarrow> string" where
  "set_repr xs = ''{'' @ join '', '' (map repr_str xs) @ ''}''"

text \<open>
  Python iterates a set of strings in an order that depends on the hash seed of the
  process; \<open>set_order\<close> gives that order for the two sets of the tool. The document the
  request returns is a new object: the renderers run on a store that holds it alone.
\<close>

definition get_weather ::
  "(string list \<Rightarrow> string list) \<Rightarrow> string \<Rightarrow> string \<Rightarrow> world \<Rightarrow> (error + string option) \<times> world" where
  "get_weather set_order dataType lang w =
     (if dataType \<notin> set dataType_set \<or> lang \<notin> set lang_set then
        (Inr (Some (''Invalid dataType or lang. Use dataType in '' @ set_repr (set_order dataType_set)
                    @ '' and '' @ set_repr (set_order lang_set))), w)
      else
        (let url = HKO_API_BASE @ ''?dataType='' @ dataType @ ''&lang='' @ lang in
         case make_hko_weather_request url (print (''Requesting URL: '' @ url) w) of
           (Inl e, w) \<Rightarrow> (Inl e, w)
         | (Inr data, w) \<Rightarrow>
             if data = JNull then (Inr (Some ''Data is None''), w)
             else (fst (formatting_weather 0 dataType [data]), w)))"

section \<open>What a renderer returns, as a function of the document\<close>

text \<open>
  The same computations without the store: the lookups and the f-strings of each renderer,
  applied to the document itself. The lemmas of the next section prove that a renderer
  called on an address returns this function of the object at that address.
\<close>

definition format_warnings_text :: "json \<Rightarrow> error + string" where
  "format_warnings_text d =
     bindE (py_get d ''details'' JNull) (\<lambda>det.
     if \<not> truthy det then Inr ''No active warnings''
     else bindE (bindE (py_getitem d ''details'') py_iter) (\<lambda>details.
          bindE (mapE format_warnings_body details) (\<lambda>ss. Inr (join (nl @ nl) ss))))"

definition format_warnings_summary_text :: "json \<Rightarrow> error + string" where
  "format_warnings_summary_text d =
     bindE (py_items d) (\<lambda>items.
     if length items = 0 then Inr ''No warning issued.''
     else bindE (mapE format_warnings_summary_body items) (\<lambda>ss. Inr (join nl ss)))"

definition extract_temperature_text :: "json \<Rightarrow> error + string" where
  "extract_temperature_text d =
     bindE (py_contains ''temperature'' d) (\<lambda>present.
     if present then
       bindE (bindE (py_getitem d ''temperature'') (\<lambda>t. py_getitem t ''data'')) (\<lambda>temperatures.
       bindE (bindE (py_getitem d ''temperature'') (\<lambda>t. py_getitem t ''recordTime'')) (\<lambda>record_time.
       bindE (py_iter temperatures) (\<lambda>temps.
       bindE (mapE extract_temperature_body temps) (\<lambda>ss.
       Inr (''Temperature readings (recorded at '' @ py_str record_time @ ''):'' @ join nl ss)))))
     else Inl UnboundLocalError)"

definition extract_rainfall_text :: "json \<Rightarrow> error + string" where
  "extract_rainfall_text d =
     bindE (py_contains ''rainfall'' d) (\<lambda>present.
     if present then
       bindE (py_getitem d ''rainfall'') (\<lambda>rainfall_info.
       bindE (py_getitem rainfall_info ''data'') (\<lambda>rainfall_data.
       bindE (py_iter rainfall_data) (\<lambda>rains.
       bindE (mapE extract_rainfall_body rains) (\<lambda>ss.
       Inr (''Rainfall data:'' @ nl @ '' '' @ join [] ss)))))
     else Inl UnboundLocalError)"

definition extract_humidity_text :: "json \<Rightarrow> error + string" where
  "extract_humidity_text d =
     bindE (py_contains ''humidity'' d) (\<lambda>present.
     bindE (if \<not> present then Inr True
            else bindE (py_get d ''humidity'' (JObj [])) (\<lambda>hum.
                 bindE (py_get hum ''data'' JNull) (\<lambda>readings.
                 Inr (\<not> truthy readings)))) (\<lambda>unavailable.
     if unavailable then Inr ''Humidty data not available''
     else
       bindE (bindE (py_getitem d ''humidity'') (\<lambda>hum.
              bindE (py_getitem hum ''data'') py_getitem0)) (\<lambda>humidity_info.
       bindE (bindE (py_getitem d ''humidity'') (\<lambda>hum. py_getitem hum ''recordTime'')) (\<lambda>record_time.
       bindE (py_getitem humidity_info ''value'') (\<lambda>val.
       bindE (py_getitem humidity_info ''unit'') (\<lambda>unit.
       bindE (py_getitem humidity_info ''place'') (\<lambda>place.
       Inr (''Humidity: '' @ py_str val @ '' '' @ py_str unit @ '' at '' @ py_str place
            @ '' Recorded at: '' @ py_str record_time))))))))"

definition extract_uv_text :: "json \<Rightarrow> error + string" where
  "extract_uv_text d =
     bindE (py_get d ''uvindex'' (JStr ''No uv index'')) (\<lambda>uvinfo.
     bindE (py_len uvinfo) (\<lambda>n.
     if n < 1 then Inr ''No UV index''
     else
       bindE (bindE (py_getitem uvinfo ''data'') py_getitem0) (\<lambda>uv_data.
       bindE (py_getitem uvinfo ''recordDesc'') (\<lambda>record_desc.
       bindE (py_getitem uv_data ''value'') (\<lambda>val.
       bindE (py_getitem uv_data ''desc'') (\<lambda>desc.
       bindE (py_getitem uv_data ''place'') (\<lambda>place.
       Inr (''UV Index: '' @ py_str val @ '' ('' @ py_str desc @ '') at '' @ py_str place
            @ '' '' @ nl @ ''        Record description: '' @ py_str record_desc))))))))"

definition current_weather_text :: "json \<Rightarrow> error + string" where
  "current_weather_text d =
     bindE (extract_temperature_text d) (\<lambda>temperature.
     bindE (extract_rainfall_text d) (\<lambda>rainfall.
     bindE (extract_humidity_text d) (\<lambda>humidity.
     bindE (extract_uv_text d) (\<lambda>uv.
     Inr (join nl [temperature, rainfall, humidity, uv])))))"

definition formatting_weather_text :: "json \<Rightarrow> string \<Rightarrow> error + string option" where
  "formatting_weather_text d dataType =
     (if dataType = ''flw'' then bindE (flw_text d) (\<lambda>s. Inr (Some s))
      else if dataType = ''fnd'' then
        bindE (py_getitem d ''weatherForecast'') (\<lambda>weekly_weather_list.
        bindE (bindE (py_iter weekly_weather_list) (mapE fnd_body)) (\<lambda>lines.
        Inr (Some (join nl lines))))
      else if dataType = ''rhrread'' then bindE (current_weather_text d) (\<lambda>s. Inr (Some s))
      else if dataType = ''warnsum'' then bindE (format_warnings_summary_text d) (\<lambda>s. Inr (Some s))
      else if dataType = ''warningInfo'' then bindE (format_warnings_text d) (\<lambda>s. Inr (Some s))
      else if dataType = ''swt'' then
        bindE (py_getitem d ''swt'') (\<lambda>special_weather_tips_list.
        bindE (bindE (py_iter special_weather_tips_list) (mapE swt_body)) (\<lambda>lines.
        Inr (Some (join nl lines))))
      else Inr None)"

section \<open>Documents of the specification's examples\<close>

definition example_warning_document :: json where
  "example_warning_document =
     JObj [(''details'', JList [JObj [(''warningStatementCode'', JStr ''WRAIN''),
                                      (''updateTime'', JStr ''t1''),
                                      (''contents'', JList [JStr ''Red rain warning in force.''])]])]"

definition example_forecast_document :: json where
  "example_forecast_document =
     JObj [(''weatherForecast'',
            JList [JObj [(''week'', JStr ''Monday''),
                         (''forecastDate'', JStr ''20240101''),
                         (''forecastWeather'', JStr ''Sunny''),
                         (''forecastMintemp'', JObj [(''value'', JInt 15)]),
                         (''forecastMaxtemp'', JObj [(''value'', JInt 22), (''unit'', JStr ''C'')])]])]"

text \<open>A world in which the client opens and closes, every request has the same outcome,
  and nothing has happened yet.\<close>

definition world_answering :: "get_outcome \<Rightarrow> world" where
  "world_answering outcome =
     \<lparr>client_enter = None, client_exit = None, network = (\<lambda>url headers. outcome),
      requests = [], console = []\<rparr>"


section \<open>Texts of the specification\<close>

text \<open>The text of a field of a warning, or the fallback of the summary for a field that
  is missing; and the line of the summary for one entry of the mapping.\<close>

definition field_or_unknown :: "(string \<times> json) list \<Rightarrow> string \<Rightarrow> string" where
  "field_or_unknown info k = (case map_of info k of Some v \<Rightarrow> py_str v | None \<Rightarrow> ''Unknown'')"

definition warnsum_line :: "string \<times> (string \<times> json) list \<Rightarrow> string" where
  "warnsum_line entry =
     (case entry of (code, info) \<Rightarrow>
        field_or_unknown info ''name'' @ '' ('' @ code @ '') - Action: ''
        @ field_or_unknown info ''actionCode'' @ '', Issued at: ''
        @ field_or_unknown info ''issueTime'')"

definition example_warnsum_document :: json where
  "example_warnsum_document =
     JObj [(''TC1'', JObj [(''name'', JStr ''Tropical Cyclone Warning''),
                           (''actionCode'', JStr ''ISSUE''),
                           (''issueTime'', JStr ''2024-01-01T00:00'')])]"

text \<open>One reading of the temperature report, as the loop of \<^verbatim>\<open>extract_temperature_data\<close>
  prints it.\<close>

definition temperature_segment :: "json \<Rightarrow> json \<Rightarrow> json \<Rightarrow> string" where
  "temperature_segment place val unit = py_str place @ '': '' @ py_str val @ degree_sign @ py_str unit"

definition example_temperature_document :: json where
  "example_temperature_document =
     JObj [(''temperature'',
            JObj [(''data'', JList [JObj [(''place'', JStr ''A''), (''value'', JInt 20), (''unit'', JStr ''C'')],
                                    JObj [(''place'', JStr ''B''), (''value'', JInt 21), (''unit'', JStr ''C'')]]),
                  (''recordTime'', JStr ''t'')])]"

section \<open>Lemmas on the store and on the renderers\<close>

lemma bindE_Inl [simp]: "bindE (Inl e) f = Inl e"
  by (simp add: bindE_def)

lemma bindE_Inr [simp]: "bindE (Inr v) f = f v"
  by (simp add: bindE_def)

lemma bindH_Inl [simp]: "bindH (Inl e, h) f = (Inl e, h)"
  by (simp add: bindH_def)

lemma bindH_Inr [simp]: "bindH (Inr v, h) f = f v h"
  by (simp add: bindH_def)

lemma fst_bindH: "fst (bindH m f) = (case fst m of Inl e \<Rightarrow> Inl e | Inr v \<Rightarrow> fst (f v (snd m)))"
  by (cases m; cases "fst m") (auto simp: bindH_def)

lemma snd_bindH: "snd (bindH m f) = (case fst m of Inl e \<Rightarrow> snd m | Inr v \<Rightarrow> snd (f v (snd m)))"
  by (cases m; cases "fst m") (auto simp: bindH_def)

lemma rd_eq [simp]: "a < length h \<Longrightarrow> rd f a h = (f (h ! a), h)"
  by (simp add: rd_def heap_read_def)

lemma snd_rd [simp]: "snd (rd f a h) = h"
  by (simp add: rd_def)

lemma length_list_append [simp]: "length (snd (list_append a v h)) = length h"
  by (simp add: list_append_def split: json.splits)

lemma take_list_append: "n \<le> a \<Longrightarrow> take n (snd (list_append a v h)) = take n h"
  by (simp add: list_append_def split: json.splits)

lemma list_append_eq: "a < length h \<Longrightarrow> h ! a = JList xs \<Longrightarrow> list_append a v h = (Inr (), h[a := JList (xs @ [v])])"
  by (simp add: list_append_def)

lemma length_append_each [simp]: "length (snd (append_each body xs a h)) = length h"
  by (induction xs arbitrary: h) (auto simp: snd_bindH split: sum.splits)

lemma take_append_each: "n \<le> a \<Longrightarrow> take n (snd (append_each body xs a h)) = take n h"
  by (induction xs arbitrary: h) (auto simp: snd_bindH take_list_append split: sum.splits)

lemma append_each_Cons_Inl: "body x = Inl e \<Longrightarrow> append_each body (x # xs) a h = (Inl e, h)"
  by simp

lemma append_each_Cons_Inr:
  "body x = Inr s \<Longrightarrow> a < length h \<Longrightarrow> h ! a = JList pre \<Longrightarrow>
   append_each body (x # xs) a h = append_each body xs a (h[a := JList (pre @ [JStr s])])"
  by (simp add: list_append_eq)

lemma fst_append_each:
  "a < length h \<Longrightarrow> h ! a = JList pre \<Longrightarrow>
   fst (append_each body xs a h) = (case mapE body xs of Inl e \<Rightarrow> Inl e | Inr ss \<Rightarrow> Inr ())"
proof (induction xs arbitrary: h pre)
  case Nil
  then show ?case by simp
next
  case (Cons x xs)
  show ?case
  proof (cases "body x")
    case (Inl e)
    then show ?thesis by simp
  next
    case (Inr s)
    let ?h = "h[a := JList (pre @ [JStr s])]"
    have "fst (append_each body xs a ?h) = (case mapE body xs of Inl e \<Rightarrow> Inl e | Inr ss \<Rightarrow> Inr ())"
      using Cons.prems by (intro Cons.IH [of ?h "pre @ [JStr s]"]) simp_all
    then show ?thesis
      using Inr Cons.prems by (simp add: append_each_Cons_Inr del: append_each.simps split: sum.splits)
  qed
qed

lemma snd_append_each:
  "a < length h \<Longrightarrow> h ! a = JList pre \<Longrightarrow> mapE body xs = Inr ss \<Longrightarrow>
   snd (append_each body xs a h) = h[a := JList (pre @ map JStr ss)]"
proof (induction xs arbitrary: h pre ss)
  case Nil
  then have "h[a := JList pre] = h" by (metis list_update_id)
  with Nil show ?case by auto
next
  case (Cons x xs)
  from Cons.prems(3) obtain s ss' where s: "body x = Inr s" and ss': "mapE body xs = Inr ss'"
    and ss: "ss = s # ss'"
    by (cases "body x"; cases "mapE body xs") auto
  let ?h = "h[a := JList (pre @ [JStr s])]"
  have "snd (append_each body xs a ?h) = ?h[a := JList ((pre @ [JStr s]) @ map JStr ss')]"
    using Cons.prems ss' by (intro Cons.IH) simp_all
  then show ?case
    using s ss Cons.prems by (simp add: append_each_Cons_Inr del: append_each.simps)
qed

lemma str_items_map_JStr [simp]: "str_items (map JStr ss) = Inr ss"
  by (induction ss) auto

lemma py_join_strs [simp]: "py_join sep (JList (map JStr ss)) = Inr (join sep ss)"
  by (simp add: py_join_def)

lemma fst_loop_join:
  assumes "a < length h" "h ! a = JList []"
  shows "fst (bindH (append_each body xs a h) (\<lambda>_ h'. rd (py_join sep) a h')) =
         bindE (mapE body xs) (\<lambda>ss. Inr (join sep ss))"
proof (cases "mapE body xs")
  case (Inl e)
  then show ?thesis
    using fst_append_each [OF assms, of body xs] by (simp add: fst_bindH)
next
  case (Inr ss)
  then show ?thesis
    using fst_append_each [OF assms, of body xs] snd_append_each [OF assms Inr] assms
    by (simp add: fst_bindH)
qed

lemma fst_loop_join_then:
  assumes "a < length h" "h ! a = JList []"
  shows "fst (bindH (append_each body xs a h) (\<lambda>_ h'. bindH (rd (py_join sep) a h') (\<lambda>joined h''. (Inr (g joined), h'')))) =
         bindE (mapE body xs) (\<lambda>ss. Inr (g (join sep ss)))"
proof (cases "mapE body xs")
  case (Inl e)
  then show ?thesis
    using fst_append_each [OF assms, of body xs] by (simp add: fst_bindH)
next
  case (Inr ss)
  then show ?thesis
    using fst_append_each [OF assms, of body xs] snd_append_each [OF assms Inr] assms
    by (simp add: fst_bindH)
qed

lemma format_warnings_result:
  assumes "data < length h"
  shows "fst (format_warnings data h) = format_warnings_text (h ! data)"
proof (cases "py_get (h ! data) ''details'' JNull")
  case (Inl e)
  then show ?thesis using assms by (simp add: format_warnings_def format_warnings_text_def)
next
  case det: (Inr det)
  show ?thesis
  proof (cases "truthy det")
    case False
    then show ?thesis using assms det by (simp add: format_warnings_def format_warnings_text_def)
  next
    case True
    show ?thesis
    proof (cases "bindE (py_getitem (h ! data) ''details'') py_iter")
      case (Inl e)
      then show ?thesis using assms det True
        by (simp add: format_warnings_def format_warnings_text_def alloc_def nth_append)
    next
      case (Inr details)
      then show ?thesis using assms det True
        by (simp add: format_warnings_def format_warnings_text_def alloc_def nth_append fst_loop_join)
    qed
  qed
qed

lemma fst_bindH_Pair: "fst (bindH (m, h) f) = bindE m (\<lambda>v. fst (f v h))"
  by (cases m) simp_all

lemma fst_if: "fst (if c then a else b) = (if c then fst a else fst b)"
  by simp

lemma format_warnings_summary_result:
  "data < length h \<Longrightarrow> fst (format_warnings_summary data h) = format_warnings_summary_text (h ! data)"
  by (cases "py_items (h ! data)")
     (simp_all add: format_warnings_summary_def format_warnings_summary_text_def alloc_def
        nth_append fst_loop_join)

lemma extract_temperature_result:
  "data < length h \<Longrightarrow> fst (extract_temperature_data data h) = extract_temperature_text (h ! data)"
  by (simp add: extract_temperature_data_def extract_temperature_text_def alloc_def
        nth_append fst_loop_join_then fst_bindH_Pair fst_if cong: if_cong)

lemma extract_rainfall_result:
  "data < length h \<Longrightarrow> fst (extract_rainfall_data data h) = extract_rainfall_text (h ! data)"
  by (simp add: extract_rainfall_data_def extract_rainfall_text_def alloc_def
        nth_append fst_loop_join_then fst_bindH_Pair fst_if cong: if_cong)

lemma bindE_if: "bindE (if c then a else b) f = (if c then bindE a f else bindE b f)"
  by simp

lemma bindH_if: "bindH (if c then a else b) f = (if c then bindH a f else bindH b f)"
  by simp

lemma extract_humidity_result:
  "data < length h \<Longrightarrow> fst (extract_humidity_data data h) = extract_humidity_text (h ! data)"
  by (simp add: extract_humidity_data_def extract_humidity_text_def fst_bindH_Pair fst_if bindH_if bindE_if
        cong: if_cong)

lemma extract_uv_result:
  "data < length h \<Longrightarrow> fst (extract_uv_index data h) = extract_uv_text (h ! data)"
  by (simp add: extract_uv_index_def extract_uv_text_def fst_bindH_Pair fst_if cong: if_cong)

lemma snd_extract_humidity: "snd (extract_humidity_data data h) = h"
  by (auto simp: extract_humidity_data_def snd_bindH split: sum.splits)

lemma snd_extract_uv: "snd (extract_uv_index data h) = h"
  by (auto simp: extract_uv_index_def snd_bindH split: sum.splits)

lemma prefix_append_each: "prefix h (snd (append_each body xs (length h) (h @ [v])))"
  by (metis take_append_each [of "length h" "length h"] order_refl take_is_prefix append_eq_conv_conj)

lemma prefix_format_warnings: "prefix h (snd (format_warnings data h))"
  by (auto simp: format_warnings_def snd_bindH alloc_def prefix_append_each split: sum.splits)

lemma prefix_format_warnings_summary: "prefix h (snd (format_warnings_summary data h))"
  by (auto simp: format_warnings_summary_def snd_bindH alloc_def prefix_append_each split: sum.splits)

lemma prefix_extract_temperature: "prefix h (snd (extract_temperature_data data h))"
  by (auto simp: extract_temperature_data_def snd_bindH alloc_def prefix_append_each split: sum.splits)

lemma prefix_extract_rainfall: "prefix h (snd (extract_rainfall_data data h))"
  by (auto simp: extract_rainfall_data_def snd_bindH alloc_def prefix_append_each split: sum.splits)

lemma prefix_cell: "prefix h h' \<Longrightarrow> a < length h \<Longrightarrow> a < length h' \<and> h' ! a = h ! a"
  by (auto simp: prefix_def nth_append)

lemma prefix_current_weather_process: "prefix h (snd (current_weather_process data h))"
proof -
  let ?h1 = "snd (extract_temperature_data data h)"
  let ?h2 = "snd (extract_rainfall_data data ?h1)"
  have 1: "prefix h ?h1" by (rule prefix_extract_temperature)
  have "prefix ?h1 ?h2" by (rule prefix_extract_rainfall)
  with 1 have 2: "prefix h ?h2" by (rule prefix_order.trans)
  show ?thesis
    using 1 2
    by (auto simp: current_weather_process_def snd_bindH snd_extract_humidity snd_extract_uv
          split: sum.splits)
qed

lemma current_weather_process_result:
  assumes "data < length h"
  shows "fst (current_weather_process data h) = current_weather_text (h ! data)"
proof -
  let ?h1 = "snd (extract_temperature_data data h)"
  let ?h2 = "snd (extract_rainfall_data data ?h1)"
  have 1: "data < length ?h1 \<and> ?h1 ! data = h ! data"
    using prefix_extract_temperature assms by (rule prefix_cell)
  then have 2: "data < length ?h2 \<and> ?h2 ! data = h ! data"
    using prefix_cell [OF prefix_extract_rainfall, of data ?h1 data] by simp
  have t: "fst (extract_temperature_data data h) = extract_temperature_text (h ! data)"
    using assms by (rule extract_temperature_result)
  have r: "fst (extract_rainfall_data data ?h1) = extract_rainfall_text (h ! data)"
    using 1 by (simp add: extract_rainfall_result)
  have hu: "fst (extract_humidity_data data ?h2) = extract_humidity_text (h ! data)"
    using 2 by (simp add: extract_humidity_result)
  have uv: "fst (extract_uv_index data ?h2) = extract_uv_text (h ! data)"
    using 2 by (simp add: extract_uv_result)
  show ?thesis
    by (simp add: current_weather_process_def current_weather_text_def fst_bindH t r hu uv
          snd_extract_humidity bindE_def split: sum.splits)
qed

lemma prefix_formatting_weather: "prefix h (snd (formatting_weather data tag h))"
  using prefix_current_weather_process [of h data] prefix_format_warnings [of h data]
    prefix_format_warnings_summary [of h data]
  by (auto simp: formatting_weather_def snd_bindH split: sum.splits)

lemma formatting_weather_result:
  "data < length h \<Longrightarrow> fst (formatting_weather data tag h) = formatting_weather_text (h ! data) tag"
  by (simp add: formatting_weather_def formatting_weather_text_def fst_bindH
        current_weather_process_result format_warnings_result format_warnings_summary_result
        bindE_def split: sum.splits)

section \<open>The formatter reads the document and keeps no state\<close>

text \<open>
  C10. \<^verbatim>\<open>formatting_weather\<close> and the renderers it calls only read the document. Whatever
  the tag, and whether the call returns or raises, every object that was in the store
  before the call is the same after it: the store after the call begins with the store
  before it, and a read of the document's address gives the same document.
\<close>

theorem formatting_weather_reads_only:
  "take (length h) (snd (formatting_weather data tag h)) = h
   \<and> take (length h) (snd (current_weather_process data h)) = h
   \<and> take (length h) (snd (format_warnings_summary data h)) = h
   \<and> take (length h) (snd (format_warnings data h)) = h
   \<and> (data < length h \<longrightarrow> heap_read data (snd (formatting_weather data tag h)) = Inr (h ! data))"
proof -
  have take: "take (length h) h' = h" if "prefix h h'" for h' :: heap
    using that by (auto simp: prefix_def)
  have "data < length h \<longrightarrow> heap_read data (snd (formatting_weather data tag h)) = Inr (h ! data)"
    using prefix_cell [OF prefix_formatting_weather, of data h data tag]
    by (simp add: heap_read_def)
  then show ?thesis
    by (simp add: take prefix_formatting_weather prefix_current_weather_process
          prefix_format_warnings_summary prefix_format_warnings)
qed

theorem formatting_weather_reads_only_witness:
  "(0::nat) < length [example_warning_document]
   \<and> heap_read 0 (snd (formatting_weather 0 ''warningInfo'' [example_warning_document]))
       = Inr example_warning_document"
  using formatting_weather_reads_only [of "[example_warning_document]" 0 "''warningInfo''"]
  by simp

text \<open>
  C9. Formatting the same document with the same tag twice gives the same result: a second
  call, on the store the first call left, returns (or raises) what the first did; and so
  does a call on any other store that holds the same document. The result is a function
  of the document and the tag alone.
\<close>

theorem formatting_weather_deterministic:
  assumes "data < length h"
  shows "fst (formatting_weather data tag (snd (formatting_weather data tag h)))
           = fst (formatting_weather data tag h)
         \<and> (\<forall>h' data'. data' < length h' \<and> h' ! data' = h ! data \<longrightarrow>
               fst (formatting_weather data' tag h') = fst (formatting_weather data tag h))"
proof -
  let ?h1 = "snd (formatting_weather data tag h)"
  have first: "fst (formatting_weather data tag h) = formatting_weather_text (h ! data) tag"
    using assms by (rule formatting_weather_result)
  have cell: "data < length ?h1 \<and> ?h1 ! data = h ! data"
    using prefix_formatting_weather assms by (rule prefix_cell)
  then have "fst (formatting_weather data tag ?h1) = formatting_weather_text (?h1 ! data) tag"
    by (intro formatting_weather_result) simp
  with cell first have again: "fst (formatting_weather data tag ?h1) = fst (formatting_weather data tag h)"
    by simp
  have other: "fst (formatting_weather data' tag h') = fst (formatting_weather data tag h)"
    if "data' < length h'" and "h' ! data' = h ! data" for h' data'
    using formatting_weather_result [OF that(1), of tag] that(2) first by simp
  from again other show ?thesis by blast
qed

theorem formatting_weather_deterministic_witness:
  "fst (formatting_weather 0 ''warningInfo''
          (snd (formatting_weather 0 ''warningInfo'' [example_warning_document])))
     = fst (formatting_weather 0 ''warningInfo'' [example_warning_document])"
proof -
  have "(0::nat) < length [example_warning_document]" by simp
  from formatting_weather_deterministic [OF this] show ?thesis by (rule conjunct1)
qed

section \<open>The tool and the request\<close>

text \<open>Once the client is open, every call of the request function is recorded in the
  world, so a world whose list of requests is unchanged has seen no request.\<close>

lemma make_hko_weather_request_is_recorded:
  "client_enter w = None \<Longrightarrow>
   requests (snd (make_hko_weather_request url w))
     = requests w @ [(url, [(''User-Agent'', USER_AGENT), (''Accept'', ''application/json'')])]"
  by (auto simp: make_hko_weather_request_def try_request_def client_get_def print_def Let_def
        split: sum.splits request_exn.splits get_outcome.splits option.splits)

text \<open>
  C1. When the report tag is none of the six known tags or the language is none of the
  three known codes, \<^verbatim>\<open>get_weather\<close> returns the error text that names the two sets (the
  same text for every such input) and leaves the world as it was: no request is made, and
  nothing is printed.
\<close>

theorem get_weather_rejects_unknown_input:
  assumes "dataType \<notin> {''flw'', ''fnd'', ''rhrread'', ''warnsum'', ''warningInfo'', ''swt''}
           \<or> lang \<notin> {''en'', ''tc'', ''sc''}"
  shows "get_weather set_order dataType lang w =
           (Inr (Some (''Invalid dataType or lang. Use dataType in ''
                       @ set_repr (set_order dataType_set) @ '' and ''
                       @ set_repr (set_order lang_set))), w)
         \<and> requests (snd (get_weather set_order dataType lang w)) = requests w"
  using assms by (auto simp: get_weather_def dataType_set_def lang_set_def)

theorem get_weather_rejects_unknown_input_witness:
  "''xx'' \<notin> {''flw'', ''fnd'', ''rhrread'', ''warnsum'', ''warningInfo'', ''swt''}
   \<and> get_weather id ''xx'' ''en'' (world_answering (Raises (RequestError ''offline''))) =
       (let q = [CHR 0x27] in
        (Inr (Some (''Invalid dataType or lang. Use dataType in {''
                    @ q @ ''flw'' @ q @ '', '' @ q @ ''fnd'' @ q @ '', '' @ q @ ''rhrread'' @ q @ '', ''
                    @ q @ ''warnsum'' @ q @ '', '' @ q @ ''warningInfo'' @ q @ '', '' @ q @ ''swt'' @ q
                    @ ''} and {'' @ q @ ''en'' @ q @ '', '' @ q @ ''tc'' @ q @ '', '' @ q @ ''sc'' @ q @ ''}'')),
         world_answering (Raises (RequestError ''offline''))))"
proof -
  have tags: "set_repr dataType_set =
                (let q = [CHR 0x27] in
                 ''{'' @ q @ ''flw'' @ q @ '', '' @ q @ ''fnd'' @ q @ '', '' @ q @ ''rhrread'' @ q @ '', ''
                 @ q @ ''warnsum'' @ q @ '', '' @ q @ ''warningInfo'' @ q @ '', '' @ q @ ''swt'' @ q @ ''}'')"
    by code_simp
  have langs: "set_repr lang_set =
                 (let q = [CHR 0x27] in
                  ''{'' @ q @ ''en'' @ q @ '', '' @ q @ ''tc'' @ q @ '', '' @ q @ ''sc'' @ q @ ''}'')"
    by code_simp
  show ?thesis
    using get_weather_rejects_unknown_input [of "''xx''" "''en''" id
            "world_answering (Raises (RequestError ''offline''))"]
    by (simp add: tags langs Let_def)
qed




section \<open>The renderers on the documents of the specification\<close>

text \<open>
  C4. On the one-day document of the specification the \<^verbatim>\<open>fnd\<close> branch does not return
  \<^verbatim>\<open>Monday (20240101): Sunny, 15-22C\<close>: the line continuation inside its f-string puts
  the twelve spaces of the next source line between the maximum temperature and the unit.
\<close>

theorem fnd_example_line_has_gap:
  "fst (formatting_weather 0 ''fnd'' [example_forecast_document])
     = Inr (Some ''Monday (20240101): Sunny, 15-22            C'')
   \<and> fst (formatting_weather 0 ''fnd'' [example_forecast_document])
     \<noteq> Inr (Some ''Monday (20240101): Sunny, 15-22C'')"
  by code_simp

lemma mapE_map:
  "(\<And>x. x \<in> set xs \<Longrightarrow> f (g x) = Inr (k x)) \<Longrightarrow> mapE f (map g xs) = Inr (map k xs)"
  by (induction xs) simp_all

lemma format_warnings_summary_body_object:
  "format_warnings_summary_body (code, JObj info) = Inr (warnsum_line (code, info))"
  by (simp add: format_warnings_summary_body_def warnsum_line_def field_or_unknown_def
        split: option.splits)

text \<open>
  C7. For the empty mapping \<^verbatim>\<open>format_warnings_summary\<close> returns \<^verbatim>\<open>No warning issued.\<close>; for
  the mapping with the one entry TC1 of the specification it returns the line of the
  specification; and for every mapping that is not empty and whose values are objects it
  returns one line per entry, in the order of the mapping, joined by newlines, with
  \<^verbatim>\<open>Unknown\<close> for a name, action code or issue time that is missing.
\<close>

theorem format_warnings_summary_lines:
  assumes "data < length h"
  shows "(h ! data = JObj [] \<longrightarrow> fst (format_warnings_summary data h) = Inr ''No warning issued.'')
   \<and> (h ! data = example_warnsum_document \<longrightarrow>
        fst (format_warnings_summary data h)
          = Inr ''Tropical Cyclone Warning (TC1) - Action: ISSUE, Issued at: 2024-01-01T00:00'')
   \<and> (entries \<noteq> [] \<and> h ! data = JObj (map (\<lambda>(code, info). (code, JObj info)) entries) \<longrightarrow>
        fst (format_warnings_summary data h) = Inr (join nl (map warnsum_line entries)))"
proof -
  have lines: "mapE format_warnings_summary_body (map (\<lambda>(code, info). (code, JObj info)) es)
                 = Inr (map warnsum_line es)" for es
    by (rule mapE_map) (auto simp: format_warnings_summary_body_object)
  have general: "format_warnings_summary_text (JObj (map (\<lambda>(code, info). (code, JObj info)) es))
                   = Inr (join nl (map warnsum_line es))" if "es \<noteq> []" for es
    using that by (simp add: format_warnings_summary_text_def lines)
  have example: "example_warnsum_document
                   = JObj (map (\<lambda>(code, info). (code, JObj info))
                        [(''TC1'', [(''name'', JStr ''Tropical Cyclone Warning''),
                                    (''actionCode'', JStr ''ISSUE''),
                                    (''issueTime'', JStr ''2024-01-01T00:00'')])])"
    by (simp add: example_warnsum_document_def)
  have "format_warnings_summary_text example_warnsum_document
          = Inr ''Tropical Cyclone Warning (TC1) - Action: ISSUE, Issued at: 2024-01-01T00:00''"
    unfolding example by (subst general) (simp_all add: warnsum_line_def field_or_unknown_def)
  then show ?thesis
    using assms general [of entries]
    by (simp add: format_warnings_summary_result format_warnings_summary_text_def)
qed

theorem format_warnings_summary_lines_witness:
  "fst (format_warnings_summary 0 [JObj []]) = Inr ''No warning issued.''
   \<and> fst (format_warnings_summary 0 [example_warnsum_document])
       = Inr ''Tropical Cyclone Warning (TC1) - Action: ISSUE, Issued at: 2024-01-01T00:00''
   \<and> fst (format_warnings_summary 0
            [JObj [(''WHOT'', JObj [(''name'', JStr ''Very Hot Weather Warning'')]),
                   (''WTS'', JObj [(''actionCode'', JStr ''EXTEND''), (''issueTime'', JNull)])]])
       = Inr (''Very Hot Weather Warning (WHOT) - Action: Unknown, Issued at: Unknown'' @ nl
              @ ''Unknown (WTS) - Action: EXTEND, Issued at: None'')"
proof -
  have 0: "(0::nat) < length [d]" for d :: json by simp
  have a: "fst (format_warnings_summary 0 [JObj []]) = Inr ''No warning issued.''"
    using format_warnings_summary_lines [OF 0, of "JObj []"] by simp
  have b: "fst (format_warnings_summary 0 [example_warnsum_document])
       = Inr ''Tropical Cyclone Warning (TC1) - Action: ISSUE, Issued at: 2024-01-01T00:00''"
    using format_warnings_summary_lines [OF 0, of example_warnsum_document] by simp
  have c: "fst (format_warnings_summary 0
            [JObj [(''WHOT'', JObj [(''name'', JStr ''Very Hot Weather Warning'')]),
                   (''WTS'', JObj [(''actionCode'', JStr ''EXTEND''), (''issueTime'', JNull)])]])
       = Inr (''Very Hot Weather Warning (WHOT) - Action: Unknown, Issued at: Unknown'' @ nl
              @ ''Unknown (WTS) - Action: EXTEND, Issued at: None'')"
    using format_warnings_summary_lines [OF 0,
        of "JObj [(''WHOT'', JObj [(''name'', JStr ''Very Hot Weather Warning'')]),
                   (''WTS'', JObj [(''actionCode'', JStr ''EXTEND''), (''issueTime'', JNull)])]"
           "[(''WHOT'', [(''name'', JStr ''Very Hot Weather Warning'')]),
             (''WTS'', [(''actionCode'', JStr ''EXTEND''), (''issueTime'', JNull)])]"]
    by (simp add: warnsum_line_def field_or_unknown_def str_int_def str_nat.simps digit_char_def
          example_warnsum_document_def)
  from a b c show ?thesis by simp
qed

lemma key_present_iff: "k \<in> fst ` set kvs \<longleftrightarrow> map_of kvs k \<noteq> None"
  by (simp add: map_of_eq_None_iff)

lemma py_chars_nonempty: "s \<noteq> [] \<Longrightarrow> py_chars s \<noteq> []"
  by (cases s) (simp_all add: Let_def)

text \<open>
  C8. On a document (an object) without the key \<^verbatim>\<open>humidity\<close>, or whose \<^verbatim>\<open>humidity\<close> object
  has no \<^verbatim>\<open>data\<close> or an empty \<^verbatim>\<open>data\<close> list, \<^verbatim>\<open>extract_humidity_data\<close> returns the fixed
  message (spelled \<^verbatim>\<open>Humidty\<close> in the source), whatever the record time; in particular for
  \<^verbatim>\<open>humidity: {"data": [], "recordTime": t}\<close>. With a \<^verbatim>\<open>data\<close> list that is not empty it formats
  the first reading and the record time, and the other readings play no part.
\<close>

theorem extract_humidity_data_cases:
  assumes "data < length h" and "h ! data = JObj doc"
  shows "(map_of doc ''humidity'' = None \<longrightarrow>
            fst (extract_humidity_data data h) = Inr ''Humidty data not available'')
   \<and> (map_of doc ''humidity'' = Some (JObj hum)
        \<and> (map_of hum ''data'' = None \<or> map_of hum ''data'' = Some (JList [])) \<longrightarrow>
            fst (extract_humidity_data data h) = Inr ''Humidty data not available'')
   \<and> (doc = [(''humidity'', JObj [(''data'', JList []), (''recordTime'', t)])] \<longrightarrow>
            fst (extract_humidity_data data h) = Inr ''Humidty data not available'')
   \<and> (map_of doc ''humidity'' = Some (JObj hum)
        \<and> map_of hum ''data'' = Some (JList (JObj reading # rest))
        \<and> map_of hum ''recordTime'' = Some record_time
        \<and> map_of reading ''value'' = Some val
        \<and> map_of reading ''unit'' = Some unit
        \<and> map_of reading ''place'' = Some place \<longrightarrow>
            fst (extract_humidity_data data h)
              = Inr (''Humidity: '' @ py_str val @ '' '' @ py_str unit @ '' at '' @ py_str place
                     @ '' Recorded at: '' @ py_str record_time))"
  using assms
  by (auto simp: extract_humidity_result extract_humidity_text_def key_present_iff)

theorem extract_humidity_data_cases_witness:
  "fst (extract_humidity_data 0 [JObj []]) = Inr ''Humidty data not available''
   \<and> fst (extract_humidity_data 0 [JObj [(''humidity'', JObj [(''data'', JList []), (''recordTime'', JStr ''t'')])]])
       = Inr ''Humidty data not available''
   \<and> fst (extract_humidity_data 0
            [JObj [(''humidity'',
                    JObj [(''recordTime'', JStr ''2024-01-01T10:00''),
                          (''data'', JList [JObj [(''unit'', JStr ''percent''), (''value'', JStr ''83''),
                                                  (''place'', JStr ''Hong Kong Observatory'')],
                                            JObj [(''unit'', JStr ''percent''), (''value'', JStr ''70''),
                                                  (''place'', JStr ''elsewhere'')]])])]])
       = Inr ''Humidity: 83 percent at Hong Kong Observatory Recorded at: 2024-01-01T10:00''"
proof -
  have 0: "(0::nat) < length [d]" for d :: json by simp
  have a: "fst (extract_humidity_data 0 [JObj []]) = Inr ''Humidty data not available''"
    using extract_humidity_data_cases [OF 0, of "JObj []" "[]"] by simp
  have b: "fst (extract_humidity_data 0 [JObj [(''humidity'', JObj [(''data'', JList []), (''recordTime'', JStr ''t'')])]])
       = Inr ''Humidty data not available''"
    using extract_humidity_data_cases [OF 0,
      of "JObj [(''humidity'', JObj [(''data'', JList []), (''recordTime'', JStr ''t'')])]"
         "[(''humidity'', JObj [(''data'', JList []), (''recordTime'', JStr ''t'')])]"
         "[(''data'', JList []), (''recordTime'', JStr ''t'')]"]
    by simp
  have c: "fst (extract_humidity_data 0
            [JObj [(''humidity'',
                    JObj [(''recordTime'', JStr ''2024-01-01T10:00''),
                          (''data'', JList [JObj [(''unit'', JStr ''percent''), (''value'', JStr ''83''),
                                                  (''place'', JStr ''Hong Kong Observatory'')],
                                            JObj [(''unit'', JStr ''percent''), (''value'', JStr ''70''),
                                                  (''place'', JStr ''elsewhere'')]])])]])
       = Inr ''Humidity: 83 percent at Hong Kong Observatory Recorded at: 2024-01-01T10:00''"
    using extract_humidity_data_cases [where data = 0
      and h = "[JObj [(''humidity'',
                    JObj [(''recordTime'', JStr ''2024-01-01T10:00''),
                          (''data'', JList [JObj [(''unit'', JStr ''percent''), (''value'', JStr ''83''),
                                                  (''place'', JStr ''Hong Kong Observatory'')],
                                            JObj [(''unit'', JStr ''percent''), (''value'', JStr ''70''),
                                                  (''place'', JStr ''elsewhere'')]])])]]"
      and doc = "[(''humidity'',
                    JObj [(''recordTime'', JStr ''2024-01-01T10:00''),
                          (''data'', JList [JObj [(''unit'', JStr ''percent''), (''value'', JStr ''83''),
                                                  (''place'', JStr ''Hong Kong Observatory'')],
                                            JObj [(''unit'', JStr ''percent''), (''value'', JStr ''70''),
                                                  (''place'', JStr ''elsewhere'')]])])]"
      and hum = "[(''recordTime'', JStr ''2024-01-01T10:00''),
           (''data'', JList [JObj [(''unit'', JStr ''percent''), (''value'', JStr ''83''),
                                   (''place'', JStr ''Hong Kong Observatory'')],
                             JObj [(''unit'', JStr ''percent''), (''value'', JStr ''70''),
                                   (''place'', JStr ''elsewhere'')]])]"
      and reading = "[(''unit'', JStr ''percent''), (''value'', JStr ''83''), (''place'', JStr ''Hong Kong Observatory'')]"
      and rest = "[JObj [(''unit'', JStr ''percent''), (''value'', JStr ''70''), (''place'', JStr ''elsewhere'')]]"
      and record_time = "JStr ''2024-01-01T10:00''" and val = "JStr ''83''" and unit = "JStr ''percent''"
      and place = "JStr ''Hong Kong Observatory''"]
    by simp
  from a b c show ?thesis by simp
qed

text \<open>
  C5. On a document without the key \<^verbatim>\<open>uvindex\<close> the function \<^verbatim>\<open>extract_uv_index\<close> does not
  return \<^verbatim>\<open>No UV index\<close>: the default it takes for the missing key is the text
  \<^verbatim>\<open>No uv index\<close>, whose length is not below 1, and indexing that text with \<^verbatim>\<open>'data'\<close>
  raises \<^verbatim>\<open>TypeError\<close>. With the key present and a first reading, it returns the two
  lines of the first reading and the record description.
\<close>

theorem extract_uv_index_cases:
  assumes "data < length h" and "h ! data = JObj doc"
  shows "(map_of doc ''uvindex'' = None \<longrightarrow> fst (extract_uv_index data h) = Inl TypeError)
   \<and> (map_of doc ''uvindex'' = Some (JObj uv)
        \<and> map_of uv ''data'' = Some (JList (JObj reading # rest))
        \<and> map_of uv ''recordDesc'' = Some record_desc
        \<and> map_of reading ''value'' = Some val
        \<and> map_of reading ''desc'' = Some desc
        \<and> map_of reading ''place'' = Some place \<longrightarrow>
            fst (extract_uv_index data h)
              = Inr (''UV Index: '' @ py_str val @ '' ('' @ py_str desc @ '') at '' @ py_str place
                     @ '' '' @ nl @ ''        Record description: '' @ py_str record_desc))"
proof -
  have "uv \<noteq> []" if "map_of uv ''data'' = Some x" for x
    using that by auto
  then show ?thesis
    using assms
    by (auto simp: extract_uv_result extract_uv_text_def py_chars_nonempty)
qed

theorem extract_uv_index_cases_witness:
  "fst (extract_uv_index 0 [JObj []]) = Inl TypeError"
proof -
  have 0: "(0::nat) < length [JObj []]" by simp
  show ?thesis using extract_uv_index_cases [OF 0, of "[]"] by simp
qed



lemma mapE_all2: "list_all2 (\<lambda>x y. f x = Inr (g y)) xs ys \<Longrightarrow> mapE f xs = Inr (map g ys)"
  by (induction xs ys rule: list_all2_induct) simp_all






lemma extract_temperature_body_object:
  "map_of kvs ''place'' = Some place \<Longrightarrow> map_of kvs ''value'' = Some val \<Longrightarrow>
   map_of kvs ''unit'' = Some unit \<Longrightarrow>
   extract_temperature_body (JObj kvs) = Inr (temperature_segment place val unit)"
  by (simp add: extract_temperature_body_def temperature_segment_def)

text \<open>
  C6, as stated, fails: with two readings the segments are not run together. The source
  joins them with a newline; only the header and the first segment have nothing
  between them.
\<close>

theorem extract_temperature_data_segments_not_concatenated:
  "fst (extract_temperature_data 0 [example_temperature_document])
     \<noteq> Inr (''Temperature readings (recorded at t):''
            @ concat [temperature_segment (JStr ''A'') (JInt 20) (JStr ''C''),
                      temperature_segment (JStr ''B'') (JInt 21) (JStr ''C'')])"
  by code_simp

text \<open>
  C6, amended. On a document whose \<^verbatim>\<open>temperature\<close> object has a record time and a \<^verbatim>\<open>data\<close>
  list of readings, each with a place, a value and a unit, \<^verbatim>\<open>extract_temperature_data\<close>
  returns the header with the record time, followed without a separator by the segments
  \<^verbatim>\<open>place: value\<close>, degree sign, \<^verbatim>\<open>unit\<close>, one per reading in the order of the list, joined by
  newlines.
\<close>

theorem extract_temperature_data_lines:
  assumes "data < length h"
    and "h ! data = JObj doc"
    and "map_of doc ''temperature'' = Some (JObj temperature)"
    and "map_of temperature ''data'' = Some (JList readings)"
    and "map_of temperature ''recordTime'' = Some record_time"
    and "list_all2 (\<lambda>reading (place, val, unit).
            \<exists>kvs. reading = JObj kvs \<and> map_of kvs ''place'' = Some place
              \<and> map_of kvs ''value'' = Some val \<and> map_of kvs ''unit'' = Some unit)
          readings rows"
  shows "fst (extract_temperature_data data h)
           = Inr (''Temperature readings (recorded at '' @ py_str record_time @ ''):''
                  @ join nl (map (\<lambda>(place, val, unit). temperature_segment place val unit) rows))"
proof -
  have "list_all2 (\<lambda>reading row. extract_temperature_body reading
            = Inr ((\<lambda>(place, val, unit). temperature_segment place val unit) row)) readings rows"
    using assms(6)
    by (rule list_all2_mono) (auto simp: extract_temperature_body_object)
  then have "mapE extract_temperature_body readings
               = Inr (map (\<lambda>(place, val, unit). temperature_segment place val unit) rows)"
    by (rule mapE_all2)
  moreover have "''temperature'' \<in> fst ` set doc"
    using assms(3) by (simp add: key_present_iff)
  ultimately show ?thesis
    using assms(1-5)
    by (simp add: extract_temperature_result extract_temperature_text_def)
qed

theorem extract_temperature_data_lines_witness:
  "fst (extract_temperature_data 0 [example_temperature_document])
     = Inr (''Temperature readings (recorded at t):''
            @ temperature_segment (JStr ''A'') (JInt 20) (JStr ''C'') @ nl
            @ temperature_segment (JStr ''B'') (JInt 21) (JStr ''C''))"
  using extract_temperature_data_lines [where data = 0
    and h = "[example_temperature_document]"
    and doc = "[(''temperature'',
            JObj [(''data'', JList [JObj [(''place'', JStr ''A''), (''value'', JInt 20), (''unit'', JStr ''C'')],
                                    JObj [(''place'', JStr ''B''), (''value'', JInt 21), (''unit'', JStr ''C'')]]),
                  (''recordTime'', JStr ''t'')])]"
    and temperature = "[(''data'', JList [JObj [(''place'', JStr ''A''), (''value'', JInt 20), (''unit'', JStr ''C'')],
                                    JObj [(''place'', JStr ''B''), (''value'', JInt 21), (''unit'', JStr ''C'')]]),
                  (''recordTime'', JStr ''t'')]"
    and readings = "[JObj [(''place'', JStr ''A''), (''value'', JInt 20), (''unit'', JStr ''C'')],
                     JObj [(''place'', JStr ''B''), (''value'', JInt 21), (''unit'', JStr ''C'')]]"
    and record_time = "JStr ''t''"
    and rows = "[(JStr ''A'', JInt 20, JStr ''C''), (JStr ''B'', JInt 21, JStr ''C'')]"]
  by (simp add: example_temperature_document_def)

end
